theory Spec2Isabelle
  imports Complex_Main
begin

section \<open>Values of the host language\<close>

text \<open>
  The services are TypeScript. A \<open>number\<close> is modelled as a \<^typ>\<open>real\<close>: arithmetic is
  exact, and the places where the source can divide by zero are written out case by case
  (\<open>jsnum\<close> below, \<open>cvHigh\<close> in the forecast engine). Strings are \<^typ>\<open>string\<close>, so
  case conversion and white space are those of ASCII.

  A parsed CSV cell is a number, a text or \<open>null\<close>; reading a key a row does not have
  gives \<open>undefined\<close>. A row is an association list in the order of its keys.
\<close>

datatype cell = Num real | Str string | Null | Undef

type_synonym row = "(string \<times> cell) list"

definition field :: "row \<Rightarrow> string \<Rightarrow> cell" where
  "field r k = (case map_of r k of None \<Rightarrow> Undef | Some v \<Rightarrow> v)"

fun truthy :: "cell \<Rightarrow> bool" where
  "truthy (Num x) = (x \<noteq> 0)"
| "truthy (Str s) = (s \<noteq> [])"
| "truthy Null = False"
| "truthy Undef = False"

subsection \<open>Strings\<close>

definition isSpace :: "char \<Rightarrow> bool" where
  "isSpace c = (c \<in> set [CHR '' '', CHR 0x09, CHR 0x0A, CHR 0x0B, CHR 0x0C, CHR 0x0D])"

definition isDigit :: "char \<Rightarrow> bool" where
  "isDigit c = (c \<in> set ''0123456789'')"

definition toLowerChar :: "char \<Rightarrow> char" where
  "toLowerChar c =
     (case map_of (zip ''ABCDEFGHIJKLMNOPQRSTUVWXYZ'' ''abcdefghijklmnopqrstuvwxyz'') c of
        None \<Rightarrow> c | Some l \<Rightarrow> l)"

definition toLowerCase :: "string \<Rightarrow> string" where
  "toLowerCase s = map toLowerChar s"

fun startsWith :: "string \<Rightarrow> string \<Rightarrow> bool" where
  "startsWith s [] = True"
| "startsWith [] (p # ps) = False"
| "startsWith (c # cs) (p # ps) = (c = p \<and> startsWith cs ps)"

text \<open>\<open>s.includes(t)\<close>: \<open>t\<close> occurs in \<open>s\<close> as a contiguous piece.\<close>

fun strIncludes :: "string \<Rightarrow> string \<Rightarrow> bool" where
  "strIncludes [] t = (t = [])"
| "strIncludes (c # cs) t = (startsWith (c # cs) t \<or> strIncludes cs t)"

definition trim :: "string \<Rightarrow> string" where
  "trim s = rev (dropWhile isSpace (rev (dropWhile isSpace s)))"

text \<open>
  \<open>s.split(/\s+/)\<close>: the pieces between maximal runs of white space. A string that starts
  or ends with white space gives an empty first or last piece, and the empty string gives
  one empty piece. \<open>splitWs inSep cur s\<close> scans \<open>s\<close> with the piece read so far in \<open>cur\<close>
  (reversed); \<open>inSep\<close> says that the last character read was white space.
\<close>

fun splitWs :: "bool \<Rightarrow> string \<Rightarrow> string \<Rightarrow> string list" where
  "splitWs inSep cur [] = [rev cur]"
| "splitWs inSep cur (c # cs) =
     (if isSpace c then (if inSep then splitWs True cur cs else rev cur # splitWs True [] cs)
      else splitWs False (c # cur) cs)"

definition split_ws :: "string \<Rightarrow> string list" where
  "split_ws s = splitWs False [] s"

subsection \<open>Numbers and their renderings\<close>

text \<open>\<open>Math.round\<close> rounds to the nearest integer, a half upwards.\<close>

definition mathRound :: "real \<Rightarrow> int" where
  "mathRound x = \<lfloor>x + 1 / 2\<rfloor>"

text \<open>The remainder operator \<open>%\<close> truncates the quotient, so the result has the sign of \<open>x\<close>.\<close>

definition jsRem :: "real \<Rightarrow> real \<Rightarrow> real" where
  "jsRem x y = x - y * of_int (if 0 \<le> x / y then \<lfloor>x / y\<rfloor> else - \<lfloor>- (x / y)\<rfloor>)"

fun natToString :: "nat \<Rightarrow> string" where
  "natToString n =
     (if n < 10 then [''0123456789'' ! n]
      else natToString (n div 10) @ [''0123456789'' ! (n mod 10)])"

declare natToString.simps [simp del]

definition intToString :: "int \<Rightarrow> string" where
  "intToString i = (if i < 0 then CHR ''-'' # natToString (nat (- i)) else natToString (nat i))"

text \<open>
  \<open>Number.prototype.toString\<close>. A whole number (below \<open>10^21\<close> in size) prints as its
  decimal digits. How a number with a fractional part prints depends on its binary
  representation, so that rendering is a parameter \<open>fmt\<close> of the model; nothing proved
  below depends on it.
\<close>

definition numToString :: "(real \<Rightarrow> string) \<Rightarrow> real \<Rightarrow> string" where
  "numToString fmt x = (if of_int \<lfloor>x\<rfloor> = x then intToString \<lfloor>x\<rfloor> else fmt x)"

text \<open>
  \<open>x.toFixed(1)\<close>: the sign, then the nearest whole number of tenths (of a tie the larger),
  written with a point before its last digit.
\<close>

definition toFixed1 :: "real \<Rightarrow> string" where
  "toFixed1 x =
     (let neg = x < 0;
          a = (if neg then - x else x);
          m = natToString (nat \<lfloor>a * 10 + 1 / 2\<rfloor>);
          m' = (if length m < 2 then CHR ''0'' # m else m)
      in (if neg then ''-'' else []) @ butlast m' @ ''.'' @ [last m'])"

text \<open>
  \<open>parseFloat\<close> of a text: leading white space, an optional sign, digits with an optional
  fraction and exponent; what follows is ignored. \<open>None\<close> is \<open>NaN\<close>. (The literal
  \<open>Infinity\<close> is not a real number and is outside the model.)
\<close>

definition digitsValue :: "string \<Rightarrow> nat" where
  "digitsValue ds = foldl (\<lambda>a c. 10 * a + (of_char c - 48)) 0 ds"

definition pow10 :: "int \<Rightarrow> real" where
  "pow10 e = (if 0 \<le> e then 10 ^ nat e else 1 / 10 ^ nat (- e))"

definition parseExponent :: "string \<Rightarrow> int" where
  "parseExponent s =
     (case s of
        [] \<Rightarrow> 0
      | c # t \<Rightarrow>
          if c = CHR ''e'' \<or> c = CHR ''E'' then
            (let neg = (t \<noteq> [] \<and> hd t = CHR ''-'');
                 u = (if t \<noteq> [] \<and> (hd t = CHR ''-'' \<or> hd t = CHR ''+'') then tl t else t);
                 ds = takeWhile isDigit u
             in if ds = [] then 0
                else if neg then - int (digitsValue ds) else int (digitsValue ds))
          else 0)"

definition parseFloatStr :: "string \<Rightarrow> real option" where
  "parseFloatStr s =
     (let t = dropWhile isSpace s;
          neg = (t \<noteq> [] \<and> hd t = CHR ''-'');
          u = (if t \<noteq> [] \<and> (hd t = CHR ''-'' \<or> hd t = CHR ''+'') then tl t else t);
          ip = takeWhile isDigit u;
          r1 = dropWhile isDigit u;
          hasPoint = (r1 \<noteq> [] \<and> hd r1 = CHR ''.'');
          fp = (if hasPoint then takeWhile isDigit (tl r1) else []);
          r2 = (if hasPoint then dropWhile isDigit (tl r1) else r1);
          m = real (digitsValue ip) + real (digitsValue fp) / 10 ^ length fp
      in if ip = [] \<and> fp = [] then None
         else Some ((if neg then - m else m) * pow10 (parseExponent r2)))"

text \<open>
  \<open>parseFloat(v)\<close> for a cell: a number is itself; \<open>null\<close> and \<open>undefined\<close> are first
  turned into the texts \<open>null\<close> and \<open>undefined\<close>, which do not parse.
\<close>

fun parseFloat :: "cell \<Rightarrow> real option" where
  "parseFloat (Num x) = Some x"
| "parseFloat (Str s) = parseFloatStr s"
| "parseFloat Null = None"
| "parseFloat Undef = None"

text \<open>\<open>parseFloat(v) || 0\<close>: \<open>NaN\<close> is falsy.\<close>

definition parseFloatOr0 :: "cell \<Rightarrow> real" where
  "parseFloatOr0 v = (case parseFloat v of None \<Rightarrow> 0 | Some x \<Rightarrow> x)"

fun cellToString :: "(real \<Rightarrow> string) \<Rightarrow> cell \<Rightarrow> string" where
  "cellToString fmt (Num x) = numToString fmt x"
| "cellToString fmt (Str s) = s"
| "cellToString fmt Null = ''null''"
| "cellToString fmt Undef = ''undefined''"

section \<open>Goal progress (\<open>services/goalSetting.ts\<close>)\<close>

text \<open>
  The progress formula divides, and its divisor can be zero. The result of such a
  computation is a \<open>jsnum\<close>: a real number, an infinity or \<open>NaN\<close>. The operands are
  real numbers; a zero divisor is the positive zero (as the difference of two equal numbers
  is).
\<close>

datatype jsnum = Fin real | PInf | NInf | NaN

definition jsDiv :: "real \<Rightarrow> real \<Rightarrow> jsnum" where
  "jsDiv a b =
     (if b \<noteq> 0 then Fin (a / b) else if a = 0 then NaN else if 0 < a then PInf else NInf)"

fun jsTimes :: "jsnum \<Rightarrow> real \<Rightarrow> jsnum" where
  "jsTimes (Fin a) k = Fin (a * k)"
| "jsTimes PInf k = (if k = 0 then NaN else if 0 < k then PInf else NInf)"
| "jsTimes NInf k = (if k = 0 then NaN else if 0 < k then NInf else PInf)"
| "jsTimes NaN k = NaN"

text \<open>\<open>Math.min(k, x)\<close> and \<open>Math.max(k, x)\<close> for a real \<open>k\<close>: \<open>NaN\<close> if \<open>x\<close> is.\<close>

fun mathMin :: "real \<Rightarrow> jsnum \<Rightarrow> jsnum" where
  "mathMin k (Fin a) = Fin (min k a)"
| "mathMin k PInf = Fin k"
| "mathMin k NInf = NInf"
| "mathMin k NaN = NaN"

fun mathMax :: "real \<Rightarrow> jsnum \<Rightarrow> jsnum" where
  "mathMax k (Fin a) = Fin (max k a)"
| "mathMax k PInf = PInf"
| "mathMax k NInf = Fin k"
| "mathMax k NaN = NaN"

text \<open>\<open>x < k\<close> for a real \<open>k\<close>: every comparison with \<open>NaN\<close> is false.\<close>

fun jsLess :: "jsnum \<Rightarrow> real \<Rightarrow> bool" where
  "jsLess (Fin a) k = (a < k)"
| "jsLess PInf k = False"
| "jsLess NInf k = True"
| "jsLess NaN k = False"

datatype goal_type = Recovery | Sleep | Strain | Hrv | Custom

datatype trend = Improving | Declining | Stable

text \<open>
  \<open>generateRecommendations\<close> picks one of ten fixed lists of advice by the goal's type and
  progress; the model names the list instead of repeating its sentences.
\<close>

datatype advice =
    RecoveryBelow50 | RecoveryBelow80 | RecoveryFrom80
  | SleepBelow50 | SleepBelow80 | SleepFrom80
  | HrvBelow50 | HrvFrom50
  | StrainBelow50 | StrainFrom50
  | NoAdvice

text \<open>
  The goal's fields that \<open>updateGoalProgress\<close> reads or writes (the identifier, the texts
  and the time stamps are left out; the write to local storage is an effect outside the
  model).
\<close>

record goal =
  gtype :: goal_type
  targetValue :: real
  currentValue :: real
  progress :: jsnum
  gtrend :: trend
  recommendations :: advice

definition getCurrentValue :: "row list \<Rightarrow> goal_type \<Rightarrow> real" where
  "getCurrentValue rows t =
     (case rows of
        [] \<Rightarrow> 0
      | latest # _ \<Rightarrow>
          (case t of
             Recovery \<Rightarrow> parseFloatOr0 (field latest ''recovery score %'')
           | Sleep \<Rightarrow> parseFloatOr0 (field latest ''sleep performance %'')
           | Strain \<Rightarrow> parseFloatOr0 (field latest ''day strain'')
           | Hrv \<Rightarrow> parseFloatOr0 (field latest ''heart rate variability (ms)'')
           | Custom \<Rightarrow> 0))"

fun getBaselineValue :: "goal_type \<Rightarrow> real" where
  "getBaselineValue Recovery = 30"
| "getBaselineValue Sleep = 60"
| "getBaselineValue Strain = 20"
| "getBaselineValue Hrv = 20"
| "getBaselineValue Custom = 0"

definition generateRecommendations :: "goal \<Rightarrow> advice" where
  "generateRecommendations g =
     (case gtype g of
        Recovery \<Rightarrow>
          if jsLess (progress g) 50 then RecoveryBelow50
          else if jsLess (progress g) 80 then RecoveryBelow80 else RecoveryFrom80
      | Sleep \<Rightarrow>
          if jsLess (progress g) 50 then SleepBelow50
          else if jsLess (progress g) 80 then SleepBelow80 else SleepFrom80
      | Hrv \<Rightarrow> if jsLess (progress g) 50 then HrvBelow50 else HrvFrom50
      | Strain \<Rightarrow> if jsLess (progress g) 50 then StrainBelow50 else StrainFrom50
      | Custom \<Rightarrow> NoAdvice)"

definition computeProgress :: "goal_type \<Rightarrow> real \<Rightarrow> real \<Rightarrow> jsnum" where
  "computeProgress t target current =
     (if t = Strain then
        mathMax 0 (mathMin 100
          (jsTimes (jsDiv (target - current) (target - getBaselineValue t)) 100))
      else
        mathMax 0 (mathMin 100 (jsTimes (jsDiv current target) 100)))"

definition computeTrend :: "goal_type \<Rightarrow> real \<Rightarrow> real \<Rightarrow> trend" where
  "computeTrend t current previous =
     (if \<bar>current - previous\<bar> < 1 then Stable
      else
        (let isImproving = (if t = Strain then current < previous else current > previous)
         in if isImproving then Improving else Declining))"

definition updateGoalProgress :: "row list \<Rightarrow> goal \<Rightarrow> goal" where
  "updateGoalProgress rows g =
     (let current = getCurrentValue rows (gtype g);
          previous = currentValue g;
          g1 = g\<lparr>currentValue := current\<rparr>;
          g2 = g1\<lparr>progress := computeProgress (gtype g1) (targetValue g1) current\<rparr>;
          g3 = g2\<lparr>gtrend := computeTrend (gtype g2) current previous\<rparr>
      in g3\<lparr>recommendations := generateRecommendations g3\<rparr>)"

text \<open>
  \<open>createGoal\<close>: a new goal starts from the current reading with progress 0, a stable
  trend and no recommendations, and is updated at once.
\<close>

definition createGoal :: "row list \<Rightarrow> goal_type \<Rightarrow> real \<Rightarrow> goal" where
  "createGoal rows t target =
     updateGoalProgress rows
       \<lparr>gtype = t, targetValue = target, currentValue = getCurrentValue rows t,
        progress = Fin 0, gtrend = Stable, recommendations = NoAdvice\<rparr>"

section \<open>Forecasts (\<open>PredictiveAnalytics\<close>)\<close>

datatype prediction_type = RecoveryForecast | SleepDebtForecast | PerformanceForecast | InjuryRiskForecast

text \<open>
  Each forecast carries one of these fixed lists of recommendations (the placeholder for
  missing data carries the empty list); the model names the list.
\<close>

datatype forecast_advice =
    NoRecommendations
  | RestDay | HighIntensity | ModerateIntensity
  | SleepBalanced | SleepDebtSignificant | SleepDebtModerate | SleepSurplus | SleepDebtMinor
  | PerformancePeak | PerformanceGood | PerformanceRecover
  | InjuryHigh | InjuryModerate | InjuryLow

record predictionResult =
  ptype :: prediction_type
  prediction :: int
  confidence :: real
  timeframe :: string
  reasoning :: string
  precommendations :: forecast_advice

text \<open>The constructor keeps the first 30 rows (the most recent ones).\<close>

definition newPredictiveAnalytics :: "row list \<Rightarrow> row list" where
  "newPredictiveAnalytics rows = take 30 rows"

text \<open>\<open>getMetricData\<close>: the column as numbers, without the cells that do not parse.\<close>

definition getMetricData :: "row list \<Rightarrow> string \<Rightarrow> real list" where
  "getMetricData rows metricName = List.map_filter (\<lambda>r. parseFloat (field r metricName)) rows"

definition calculateTrend :: "real list \<Rightarrow> real" where
  "calculateTrend xs =
     (if length xs < 3 then 0
      else
        (let n = real (length xs);
             ixs = zip [0..<length xs] xs;
             sumX = (\<Sum>(i, v) \<leftarrow> ixs. real i);
             sumY = (\<Sum>(i, v) \<leftarrow> ixs. v);
             sumXY = (\<Sum>(i, v) \<leftarrow> ixs. real i * v);
             sumXX = (\<Sum>(i, v) \<leftarrow> ixs. real i * real i)
         in (n * sumXY - sumX * sumY) / (n * sumXX - sumX * sumX)))"

definition calculateVariance :: "real list \<Rightarrow> real" where
  "calculateVariance xs =
     (let mean = sum_list xs / real (length xs)
      in (\<Sum>v \<leftarrow> xs. (v - mean) ^ 2) / real (length xs))"

text \<open>
  \<open>cv > 0.3\<close> for \<open>cv = variance / mean\<close>. With a zero mean the quotient is \<open>Infinity\<close>
  for a positive variance and \<open>NaN\<close> for a zero one, and only the first exceeds \<open>0.3\<close>.
\<close>

definition cvHigh :: "real \<Rightarrow> real \<Rightarrow> bool" where
  "cvHigh variance mean = (if mean = 0 then 0 < variance else variance / mean > 0.3)"

text \<open>
  \<open>calculateConfidence(...datasets)\<close>; every call in the class passes two or three series.
\<close>

definition reduceForVariance :: "real \<Rightarrow> real list \<Rightarrow> real" where
  "reduceForVariance conf xs =
     (if length xs > 3 then
        (let variance = calculateVariance (take 7 xs);
             mean = sum_list (take 7 xs) / real (length (take 7 xs))
         in if cvHigh variance mean then conf * 0.8 else conf)
      else conf)"

definition calculateConfidence :: "real list list \<Rightarrow> real" where
  "calculateConfidence datasets =
     (let totalDataPoints = (\<Sum>d \<leftarrow> datasets. real (length d));
          avgDataPoints = totalDataPoints / real (length datasets);
          conf = foldl reduceForVariance (min 0.9 (avgDataPoints / 14)) datasets
      in max 0.5 (min 0.95 conf))"

text \<open>
  The helper as the specification words it, for comparison: the coefficient of variation
  is the standard deviation over the mean. Everything else is as in the code.
\<close>

definition specCvHigh :: "real \<Rightarrow> real \<Rightarrow> bool" where
  "specCvHigh variance mean = (if mean = 0 then 0 < variance else sqrt variance / mean > 0.3)"

definition specReduceForVariance :: "real \<Rightarrow> real list \<Rightarrow> real" where
  "specReduceForVariance conf xs =
     (if length xs > 3 then
        (let variance = calculateVariance (take 7 xs);
             mean = sum_list (take 7 xs) / real (length (take 7 xs))
         in if specCvHigh variance mean then conf * 0.8 else conf)
      else conf)"

definition specConfidence :: "real list list \<Rightarrow> real" where
  "specConfidence datasets =
     (let totalDataPoints = (\<Sum>d \<leftarrow> datasets. real (length d));
          avgDataPoints = totalDataPoints / real (length datasets);
          conf = foldl specReduceForVariance (min 0.9 (avgDataPoints / 14)) datasets
      in max 0.5 (min 0.95 conf))"

definition predictRecoveryScore :: "row list \<Rightarrow> predictionResult" where
  "predictRecoveryScore rows =
     (let recoveryData = getMetricData rows ''recovery score %'';
          strainData = getMetricData rows ''day strain'';
          sleepData = getMetricData rows ''sleep performance %''
      in if length recoveryData < 7 then
           \<lparr>ptype = RecoveryForecast, prediction = 0, confidence = 0, timeframe = ''tomorrow'',
            reasoning = ''Insufficient data'', precommendations = NoRecommendations\<rparr>
         else
           (let recentRecovery = sum_list (take 3 recoveryData) / 3;
                weeklyAvg = sum_list (take 7 recoveryData) / 7;
                recentStrain = (if length strainData > 0 then sum_list (take 2 strainData) / 2 else 10);
                recentSleep = (if length sleepData > 0 then sum_list (take 2 sleepData) / 2 else 80);
                p0 = weeklyAvg;
                p1 = (if recentStrain > 15 then p0 - 10
                      else if recentStrain > 12 then p0 - 5
                      else if recentStrain < 8 then p0 + 3 else p0);
                p2 = (if recentSleep < 70 then p1 - 8
                      else if recentSleep > 85 then p1 + 5 else p1);
                trendMomentum = (recentRecovery - weeklyAvg) * 0.3;
                predicted = max 10 (min 100 (p2 + trendMomentum));
                conf = calculateConfidence [recoveryData, strainData, sleepData];
                recs = (if predicted < 50 then RestDay
                        else if predicted > 80 then HighIntensity else ModerateIntensity)
            in \<lparr>ptype = RecoveryForecast, prediction = mathRound predicted, confidence = conf,
                timeframe = ''tomorrow'',
                reasoning = ''Based on your recent recovery trend ('' @ toFixed1 recentRecovery
                  @ ''%), strain patterns ('' @ toFixed1 recentStrain
                  @ ''), and sleep quality ('' @ toFixed1 recentSleep @ ''%)'',
                precommendations = recs\<rparr>))"

text \<open>
  The sleep-debt forecast. \<open>currentSleepDebt\<close> is the source's \<open>actualCurrentDebt\<close>: the
  first value of the debt column (0 when the column is empty), replaced by the sum of the
  daily deficits when it is 0. \<open>sleepDebtForecast\<close> is the body of \<open>predictSleepDebt\<close> on
  the three columns it reads.
\<close>

definition weeklyDeficits :: "real list \<Rightarrow> real list \<Rightarrow> real list" where
  "weeklyDeficits sleepNeedData sleepDurationData =
     (let maxDays = min 7 (min (length sleepNeedData) (length sleepDurationData))
      in map (\<lambda>i. sleepNeedData ! i - sleepDurationData ! i) [0..<maxDays])"

definition currentSleepDebt :: "real list \<Rightarrow> real list \<Rightarrow> real" where
  "currentSleepDebt sleepDebtData deficits =
     (let currentDebt = (case sleepDebtData of [] \<Rightarrow> 0 | d # _ \<Rightarrow> d)
      in if currentDebt = 0 \<and> length deficits > 0 then sum_list deficits else currentDebt)"

definition signedHours :: "real \<Rightarrow> string" where
  "signedHours h = (if h \<ge> 0 then ''+'' else []) @ toFixed1 h"

definition sleepDebtForecast :: "real list \<Rightarrow> real list \<Rightarrow> real list \<Rightarrow> predictionResult" where
  "sleepDebtForecast sleepNeedData sleepDurationData sleepDebtData =
     (if length sleepNeedData < 5 \<or> length sleepDurationData < 5 then
        \<lparr>ptype = SleepDebtForecast, prediction = 0, confidence = 0, timeframe = ''current'',
         reasoning = ''Insufficient sleep data'', precommendations = NoRecommendations\<rparr>
      else
        (let deficits = weeklyDeficits sleepNeedData sleepDurationData;
             actualCurrentDebt = currentSleepDebt sleepDebtData deficits;
             recentDeficit = sum_list (take 3 deficits) / 3;
             projectedDebtInWeek = actualCurrentDebt + recentDeficit * 7;
             conf = calculateConfidence [sleepNeedData, sleepDurationData];
             currentDebtHours = actualCurrentDebt / 60;
             projectedDebtHours = projectedDebtInWeek / 60;
             recs = (if \<bar>actualCurrentDebt\<bar> < 30 then SleepBalanced
                     else if actualCurrentDebt > 120 then SleepDebtSignificant
                     else if actualCurrentDebt > 60 then SleepDebtModerate
                     else if actualCurrentDebt < - 60 then SleepSurplus
                     else SleepDebtMinor)
         in \<lparr>ptype = SleepDebtForecast, prediction = mathRound projectedDebtInWeek,
             confidence = conf, timeframe = ''current & 1 week projection'',
             reasoning = ''Current debt: '' @ signedHours currentDebtHours
               @ ''h. Recent avg deficit: '' @ toFixed1 (recentDeficit / 60)
               @ ''h/day. Projected: '' @ signedHours projectedDebtHours @ ''h'',
             precommendations = recs\<rparr>))"

definition predictSleepDebt :: "row list \<Rightarrow> predictionResult" where
  "predictSleepDebt rows =
     sleepDebtForecast (getMetricData rows ''sleep need (min)'')
       (getMetricData rows ''asleep duration (min)'')
       (getMetricData rows ''sleep debt (min)'')"

definition predictPerformanceReadiness :: "row list \<Rightarrow> predictionResult" where
  "predictPerformanceReadiness rows =
     (let recoveryData = getMetricData rows ''recovery score %'';
          hrvData = getMetricData rows ''heart rate variability (ms)'';
          strainData = getMetricData rows ''day strain''
      in if length recoveryData < 5 then
           \<lparr>ptype = PerformanceForecast, prediction = 0, confidence = 0,
            timeframe = ''next 3 days'', reasoning = ''Insufficient performance data'',
            precommendations = NoRecommendations\<rparr>
         else
           (let avgRecovery = sum_list (take 5 recoveryData) / 5;
                hrvTrend = (if length hrvData \<ge> 5 then calculateTrend (take 5 hrvData) else 0);
                recentStrain = sum_list (take 3 strainData) / 3;
                r0 = avgRecovery;
                r1 = (if hrvTrend > 0.1 then r0 + 5 else if hrvTrend < - 0.1 then r0 - 5 else r0);
                r2 = (if recentStrain > 16 then r1 - 10 else if recentStrain < 9 then r1 + 5 else r1);
                readiness = max 0 (min 100 r2);
                conf = calculateConfidence [recoveryData, hrvData, strainData];
                recs = (if readiness > 80 then PerformancePeak
                        else if readiness > 60 then PerformanceGood else PerformanceRecover)
            in \<lparr>ptype = PerformanceForecast, prediction = mathRound readiness, confidence = conf,
                timeframe = ''next 3 days'',
                reasoning = ''Recovery trend: '' @ toFixed1 avgRecovery @ ''%, HRV trend: ''
                  @ (if hrvTrend > 0 then ''improving'' else ''stable'')
                  @ '', Recent strain: '' @ toFixed1 recentStrain,
                precommendations = recs\<rparr>))"

text \<open>
  The scan of \<open>assessInjuryRisk\<close> over the first \<open>min(7, lengths)\<close> days. The state is the
  pair (\<open>consecutiveRiskDays\<close>, \<open>riskScore\<close>); \<open>riskDay\<close> is the test of one day and
  \<open>riskStep\<close> the loop body.
\<close>

definition riskDay :: "real list \<Rightarrow> real list \<Rightarrow> nat \<Rightarrow> bool" where
  "riskDay recoveryData strainData i = (strainData ! i > 14 \<and> recoveryData ! i < 50)"

definition riskStep :: "real list \<Rightarrow> real list \<Rightarrow> nat \<times> real \<Rightarrow> nat \<Rightarrow> nat \<times> real" where
  "riskStep recoveryData strainData st i =
     (if riskDay recoveryData strainData i then (fst st + 1, snd st + 15) else (0, snd st))"

definition riskScan :: "real list \<Rightarrow> real list \<Rightarrow> nat \<times> real" where
  "riskScan recoveryData strainData =
     foldl (riskStep recoveryData strainData) (0, 0)
       [0..<min 7 (min (length recoveryData) (length strainData))]"

text \<open>The score after the scan, the bonus for consecutive days included.\<close>

definition consecutiveRisk :: "real list \<Rightarrow> real list \<Rightarrow> real" where
  "consecutiveRisk recoveryData strainData =
     (let st = riskScan recoveryData strainData
      in if fst st \<ge> 3 then snd st + 25 else snd st)"

definition injuryRiskScore :: "real list \<Rightarrow> real list \<Rightarrow> real list \<Rightarrow> real" where
  "injuryRiskScore recoveryData strainData hrvData =
     (let s1 = consecutiveRisk recoveryData strainData;
          hrvTrend = (if length hrvData \<ge> 7 then calculateTrend (take 7 hrvData) else 0);
          s2 = (if hrvTrend < - 0.15 then s1 + 20 else s1);
          recentStrainAvg = sum_list (take 3 strainData) / 3;
          weeklyStrainAvg = sum_list (take 7 strainData) / 7;
          s3 = (if recentStrainAvg > weeklyStrainAvg * 1.3 then s2 + 15 else s2)
      in min 100 s3)"

definition assessInjuryRisk :: "row list \<Rightarrow> predictionResult" where
  "assessInjuryRisk rows =
     (let recoveryData = getMetricData rows ''recovery score %'';
          strainData = getMetricData rows ''day strain'';
          hrvData = getMetricData rows ''heart rate variability (ms)''
      in if length recoveryData < 7 \<or> length strainData < 7 then
           \<lparr>ptype = InjuryRiskForecast, prediction = 0, confidence = 0,
            timeframe = ''next 2 weeks'',
            reasoning = ''Insufficient data for injury risk assessment'',
            precommendations = NoRecommendations\<rparr>
         else
           (let riskScore = injuryRiskScore recoveryData strainData hrvData;
                consecutiveRiskDays = fst (riskScan recoveryData strainData);
                hrvTrend = (if length hrvData \<ge> 7 then calculateTrend (take 7 hrvData) else 0);
                conf = calculateConfidence [recoveryData, strainData, hrvData];
                recs = (if riskScore > 70 then InjuryHigh
                        else if riskScore > 40 then InjuryModerate else InjuryLow)
            in \<lparr>ptype = InjuryRiskForecast, prediction = mathRound riskScore, confidence = conf,
                timeframe = ''next 2 weeks'',
                reasoning = natToString consecutiveRiskDays @ '' consecutive high-risk days, HRV trend: ''
                  @ (if hrvTrend < 0 then ''declining'' else ''stable'')
                  @ '', strain pattern analysis'',
                precommendations = recs\<rparr>))"

text \<open>\<open>generatePredictions\<close>: the four forecasts, without those of confidence 0.6 or less.\<close>

definition generatePredictions :: "row list \<Rightarrow> predictionResult list" where
  "generatePredictions rows =
     filter (\<lambda>p. confidence p > 0.6)
       [predictRecoveryScore rows, predictSleepDebt rows,
        predictPerformanceReadiness rows, assessInjuryRisk rows]"

section \<open>The knowledge base (\<open>RAGService\<close>)\<close>

text \<open>
  A data point of the knowledge base. \<open>date\<close> and \<open>recency\<close> are optional in the source:
  an absent date is \<open>Undef\<close>, an absent recency \<open>None\<close>. \<open>source\<close> is the text the source
  tag prints as (a row's \<open>_source_file\<close> cell when it is truthy).
\<close>

record dataPoint =
  content :: string
  date :: cell
  metric :: string
  dvalue :: string
  source :: string
  recency :: "int option"

record namedValue =
  title :: string
  mvalue :: string
  subtitle :: string

subsection \<open>\<open>buildKnowledgeBase\<close>\<close>

definition timeContext :: "nat \<Rightarrow> string" where
  "timeContext index =
     (if index = 0 then ''most recently''
      else if index = 1 then ''recently''
      else if index < 7 then ''in recent days''
      else [])"

definition isDurationKey :: "string \<Rightarrow> bool" where
  "isDurationKey keyLower =
     ((strIncludes keyLower ''sleep'' \<and> strIncludes keyLower ''duration'')
      \<or> strIncludes keyLower ''asleep duration''
      \<or> strIncludes keyLower ''awake duration''
      \<or> strIncludes keyLower ''in bed duration''
      \<or> strIncludes keyLower ''light sleep''
      \<or> strIncludes keyLower ''deep''
      \<or> strIncludes keyLower ''rem''
      \<or> strIncludes keyLower ''sleep need''
      \<or> strIncludes keyLower ''sleep debt'')"

text \<open>The minutes of a duration as hours and minutes.\<close>

definition hoursMinutes :: "real \<Rightarrow> string" where
  "hoursMinutes minutes =
     (let hours = \<lfloor>minutes / 60\<rfloor>;
          mins = mathRound (jsRem minutes 60)
      in intToString hours @ ''h '' @ intToString mins @ ''m'')"

definition formatValue :: "(real \<Rightarrow> string) \<Rightarrow> string \<Rightarrow> cell \<Rightarrow> string" where
  "formatValue fmt key v =
     (if isDurationKey (toLowerCase key) then
        (case parseFloat v of
           None \<Rightarrow> cellToString fmt v
         | Some minutes \<Rightarrow> hoursMinutes minutes)
      else cellToString fmt v)"

text \<open>\<open>row.date || `day ${index + 1}`\<close>\<close>

definition dateLabel :: "row \<Rightarrow> nat \<Rightarrow> cell" where
  "dateLabel r index =
     (if truthy (field r ''date'') then field r ''date''
      else Str (''day '' @ natToString (index + 1)))"

definition sourceTag :: "(real \<Rightarrow> string) \<Rightarrow> row \<Rightarrow> string" where
  "sourceTag fmt r =
     (if truthy (field r ''_source_file'') then cellToString fmt (field r ''_source_file'')
      else ''csv_data'')"

definition fieldContent :: "(real \<Rightarrow> string) \<Rightarrow> nat \<Rightarrow> row \<Rightarrow> string \<Rightarrow> string \<Rightarrow> string" where
  "fieldContent fmt index r key formattedValue =
     (if timeContext index \<noteq> [] then
        timeContext index @ '', your '' @ key @ '' was '' @ formattedValue
      else
        ''On '' @ cellToString fmt (dateLabel r index) @ '', your '' @ key @ '' was ''
          @ formattedValue)"

text \<open>The inner loop body: the data points (none or one) of the field \<open>key\<close> of a row.\<close>

definition fieldPoints :: "(real \<Rightarrow> string) \<Rightarrow> nat \<Rightarrow> row \<Rightarrow> string \<Rightarrow> dataPoint list" where
  "fieldPoints fmt index r key =
     (if key = ''_source_file'' then []
      else
        (let v = field r key
         in if truthy v \<and> trim (cellToString fmt v) \<noteq> [] then
              (let formattedValue = formatValue fmt key v
               in [\<lparr>content = fieldContent fmt index r key formattedValue,
                    date = dateLabel r index, metric = key, dvalue = formattedValue,
                    source = sourceTag fmt r, recency = Some (int index)\<rparr>])
            else []))"

definition rowPoints :: "(real \<Rightarrow> string) \<Rightarrow> nat \<Rightarrow> row \<Rightarrow> dataPoint list" where
  "rowPoints fmt index r = concat (map (fieldPoints fmt index r) (map fst r))"

definition csvPoints :: "(real \<Rightarrow> string) \<Rightarrow> row list \<Rightarrow> dataPoint list" where
  "csvPoints fmt csvData =
     concat (map (\<lambda>(index, r). rowPoints fmt index r) (zip [0..<length csvData] csvData))"

definition metricPoint :: "namedValue \<Rightarrow> dataPoint" where
  "metricPoint m =
     \<lparr>content = ''Your current '' @ title m @ '' is '' @ mvalue m @ '' - '' @ subtitle m,
      date = Undef, metric = title m, dvalue = mvalue m, source = ''current_metrics'',
      recency = Some (- 1)\<rparr>"

definition hasSleepDebt :: "row \<Rightarrow> bool" where
  "hasSleepDebt r =
     (field r ''sleep debt (min)'' \<noteq> Undef \<and> field r ''sleep debt (min)'' \<noteq> Null
      \<and> field r ''sleep debt (min)'' \<noteq> Str [])"

definition sleepDebtEntries :: "row list \<Rightarrow> row list" where
  "sleepDebtEntries csvData = take 7 (filter hasSleepDebt csvData)"

definition debtStatus :: "real \<Rightarrow> string" where
  "debtStatus debtMinutes =
     (if debtMinutes > 60 then ''significant debt''
      else if debtMinutes > 30 then ''moderate debt''
      else if debtMinutes > - 30 then ''balanced''
      else if debtMinutes > - 60 then ''slight surplus''
      else ''significant surplus'')"

definition timeRef :: "nat \<Rightarrow> string" where
  "timeRef index =
     (if index = 0 then ''most recent night''
      else natToString index @ '' '' @ (if index = 1 then ''day'' else ''days'') @ '' ago'')"

definition debtPoint :: "(real \<Rightarrow> string) \<Rightarrow> nat \<Rightarrow> row \<Rightarrow> dataPoint" where
  "debtPoint fmt index r =
     (let debtMinutes = parseFloatOr0 (field r ''sleep debt (min)'');
          debtHours = \<bar>debtMinutes\<bar> / 60
      in \<lparr>content = ''Sleep debt '' @ timeRef index @ '': ''
             @ (if debtMinutes \<ge> 0 then ''+'' else []) @ toFixed1 debtHours
             @ '' hours ('' @ debtStatus debtMinutes @ '')'',
          date = field r ''date'', metric = ''Sleep Debt Analysis'',
          dvalue = numToString fmt debtMinutes, source = ''sleep_debt_tracking'',
          recency = Some (int index)\<rparr>)"

definition debtTrendPoint :: "(real \<Rightarrow> string) \<Rightarrow> row list \<Rightarrow> dataPoint" where
  "debtTrendPoint fmt entries =
     (let totalDebt = (\<Sum>r \<leftarrow> entries. parseFloatOr0 (field r ''sleep debt (min)''));
          avgDailyDebt = totalDebt / real (length entries);
          trendStatus = (if avgDailyDebt > 30 then ''accumulating debt''
                         else if avgDailyDebt > - 30 then ''maintaining balance''
                         else ''building surplus'')
      in \<lparr>content = ''Sleep debt 7-day trend: '' @ toFixed1 (totalDebt / 60)
             @ '' hours total, '' @ toFixed1 (avgDailyDebt / 60)
             @ '' hours average daily ('' @ trendStatus @ '')'',
          date = Undef, metric = ''Sleep Debt Trend'', dvalue = numToString fmt totalDebt,
          source = ''sleep_debt_analysis'', recency = Some 0\<rparr>)"

definition sleepDebtPoints :: "(real \<Rightarrow> string) \<Rightarrow> row list \<Rightarrow> dataPoint list" where
  "sleepDebtPoints fmt csvData =
     (let entries = sleepDebtEntries csvData
      in if length entries > 0 then
           map (\<lambda>(index, r). debtPoint fmt index r) (zip [0..<length entries] entries)
             @ [debtTrendPoint fmt entries]
         else [])"

text \<open>The knowledge base that \<open>buildKnowledgeBase\<close> leaves in the service.\<close>

definition buildKnowledgeBase :: "(real \<Rightarrow> string) \<Rightarrow> row list \<Rightarrow> namedValue list \<Rightarrow> dataPoint list" where
  "buildKnowledgeBase fmt csvData dynamicMetrics =
     csvPoints fmt csvData @ map metricPoint dynamicMetrics @ sleepDebtPoints fmt csvData"

subsection \<open>\<open>retrieveRelevantData\<close>\<close>

text \<open>\<open>[...new Set(xs)]\<close>: the first occurrence of every element, in order.\<close>

fun uniq :: "'a list \<Rightarrow> 'a list \<Rightarrow> 'a list" where
  "uniq seen [] = []"
| "uniq seen (x # xs) = (if x \<in> set seen then uniq seen xs else x # uniq (x # seen) xs)"

definition anyIn :: "string list \<Rightarrow> string list \<Rightarrow> bool" where
  "anyIn ws cluster = list_ex (\<lambda>w. w \<in> set cluster) ws"

definition expandQuery :: "string \<Rightarrow> string list" where
  "expandQuery query =
     (let ws = split_ws (toLowerCase query)
      in uniq []
           (ws
            @ (if anyIn ws [''sleep'', ''sleeping'', ''slept'', ''rest'', ''bed'']
               then [''sleep'', ''asleep'', ''duration'', ''efficiency'', ''performance'',
                     ''rem'', ''deep'', ''light'', ''awake'', ''bed'']
               else [])
            @ (if anyIn ws [''debt'', ''owe'', ''deficit'', ''behind'', ''surplus'', ''excess'']
               then [''debt'', ''deficit'', ''surplus'', ''need'', ''owe'', ''behind'', ''excess'',
                     ''balance'']
               else [])
            @ (if anyIn ws [''recovery'', ''recover'', ''readiness'', ''ready'']
               then [''recovery'', ''score'', ''hrv'', ''variability'', ''resting'']
               else [])
            @ (if anyIn ws [''strain'', ''workout'', ''exercise'', ''activity'', ''training'']
               then [''strain'', ''day'', ''exertion'', ''calories'', ''burned'', ''energy'']
               else [])
            @ (if anyIn ws [''heart'', ''hr'', ''bpm'', ''pulse'']
               then [''heart'', ''rate'', ''bpm'', ''resting'', ''average'', ''max'', ''hrv'',
                     ''variability'']
               else [])))"

definition isTemporalQuery :: "string \<Rightarrow> bool" where
  "isTemporalQuery queryLower =
     list_ex (\<lambda>ref. strIncludes queryLower ref)
       [''last night'', ''yesterday'', ''today'', ''most recent'', ''latest'', ''current'', ''now'']"

definition wordScore :: "string \<Rightarrow> string \<Rightarrow> string \<Rightarrow> int" where
  "wordScore contentLower metricLower w =
     (if strIncludes contentLower w then 2 else 0)
     + (if strIncludes metricLower w then 3 else 0)
     + (if w \<in> set (split_ws contentLower) then 1 else 0)
     + (if w \<in> set (split_ws metricLower) then 2 else 0)"

definition keywordScore :: "string list \<Rightarrow> dataPoint \<Rightarrow> int" where
  "keywordScore expandedQuery dp =
     foldl (\<lambda>score w. score + wordScore (toLowerCase (content dp)) (toLowerCase (metric dp)) w)
       0 expandedQuery"

definition sleepDebtBoost :: "string \<Rightarrow> dataPoint \<Rightarrow> int" where
  "sleepDebtBoost queryLower dp =
     (if strIncludes queryLower ''sleep debt'' \<and> source dp = ''sleep_debt_tracking'' then 50 else 0)
     + (if strIncludes queryLower ''sleep debt'' \<and> source dp = ''sleep_debt_analysis'' then 45 else 0)"

definition recentBoost :: "dataPoint \<Rightarrow> int" where
  "recentBoost dp =
     (if source dp = ''current_metrics'' then 5 else 0)
     + (case recency dp of None \<Rightarrow> 0 | Some r \<Rightarrow> if r < 3 then 3 else 0)"

definition temporalBoost :: "bool \<Rightarrow> dataPoint \<Rightarrow> int" where
  "temporalBoost temporal dp =
     (case recency dp of
        None \<Rightarrow> 0
      | Some r \<Rightarrow>
          if temporal then (if r = 0 then 20 else if r = 1 then 10 else if r = 2 then 5 else 0)
          else 0)"

definition scorePoint :: "string \<Rightarrow> dataPoint \<Rightarrow> int" where
  "scorePoint query dp =
     (let queryLower = toLowerCase query
      in keywordScore (expandQuery queryLower) dp + sleepDebtBoost queryLower dp
         + recentBoost dp + temporalBoost (isTemporalQuery queryLower) dp)"

text \<open>
  The scored data points with a positive score, by descending score; \<open>Array.prototype.sort\<close>
  is stable, as \<^const>\<open>sort_key\<close> is.
\<close>

definition rankedData :: "dataPoint list \<Rightarrow> string \<Rightarrow> (dataPoint \<times> int) list" where
  "rankedData knowledgeBase query =
     sort_key (\<lambda>item. - snd item)
       (filter (\<lambda>item. snd item > 0) (map (\<lambda>dp. (dp, scorePoint query dp)) knowledgeBase))"

definition retrieveRelevantData :: "dataPoint list \<Rightarrow> string \<Rightarrow> nat \<Rightarrow> dataPoint list" where
  "retrieveRelevantData knowledgeBase query maxResults =
     map fst (take maxResults (rankedData knowledgeBase query))"

section \<open>Properties\<close>

subsection \<open>Goal progress\<close>

lemmas goal_eval = createGoal_def updateGoalProgress_def getCurrentValue_def field_def
  parseFloatOr0_def computeProgress_def jsDiv_def Let_def

text \<open>
  C1. A strain goal is the lower-is-better goal; its baseline is 20. With target 10 the
  claim expects progress 100 at a reading of 10, 0 at 20 and 50 at 15. The code computes
  \<open>(target - current) / (target - baseline)\<close>, which is 0 at the target and 1 at the
  baseline: the progress is 0 at a reading of 10 and 100 at a reading of 20, the reverse
  of the claim (and of the code's own remark that lower is better for strain). Only the
  midpoint agrees.
\<close>

theorem strain_progress_reversed:
  "progress (createGoal [[(''day strain'', Num 10)]] Strain 10) = Fin 0
   \<and> progress (createGoal [[(''day strain'', Num 20)]] Strain 10) = Fin 100
   \<and> progress (createGoal [[(''day strain'', Num 15)]] Strain 10) = Fin 50"
  by (simp add: goal_eval)

text \<open>
  C2. The claim expects a progress within 0 and 100 for all finite inputs, the division
  being guarded. The code does not guard it: a strain goal whose target is the baseline 20,
  at a reading of 20, divides 0 by 0, and the clamp keeps \<open>NaN\<close>. The same happens to a
  goal of another type with target 0 at a reading of 0 (no rows loaded).
\<close>

theorem progress_not_a_number:
  "progress (createGoal [[(''day strain'', Num 20)]] Strain 20) = NaN
   \<and> progress (createGoal [] Hrv 0) = NaN"
  by (simp add: goal_eval)

subsection \<open>Building the knowledge base\<close>

lemma jsRem_minus_30: "jsRem (- 30) 60 = - 30"
  by (simp add: jsRem_def)

lemma mathRound_minus_30: "mathRound (- 30) = - 30"
  by (simp add: mathRound_def)

lemma hoursMinutes_minus_30: "hoursMinutes (- 30) = ''-1h -30m''"
  by (simp add: hoursMinutes_def jsRem_minus_30 mathRound_minus_30 intToString_def
      natToString.simps)

lemma jsRem_59_6: "jsRem (298 / 5) 60 = 298 / 5"
  by (simp add: jsRem_def)

lemma mathRound_59_6: "mathRound (298 / 5) = 60"
  by (simp add: mathRound_def)

lemma hoursMinutes_59_6: "hoursMinutes (298 / 5) = ''0h 60m''"
  by (simp add: hoursMinutes_def jsRem_59_6 mathRound_59_6 intToString_def natToString.simps)

lemma sleep_debt_key_is_duration: "isDurationKey (toLowerCase ''sleep debt (min)'')"
  by (simp add: isDurationKey_def toLowerCase_def toLowerChar_def)

lemma minus_30_not_blank: "trim (numToString fmt (- 30)) \<noteq> []"
  by (simp add: trim_def numToString_def intToString_def natToString.simps isSpace_def)

text \<open>
  C3. The claim expects every duration to render as \<open>{H}h {M}m\<close> with \<open>H\<close> the floor of
  the minutes over 60 and \<open>M\<close> from 0 to 59. The hours are that floor, but the minutes are
  the rounded truncated remainder: a sleep debt of -30 minutes (a surplus) renders as
  \<open>-1h -30m\<close>, and 59.6 minutes render as \<open>0h 60m\<close>.
\<close>

theorem duration_minutes_out_of_range:
  "csvPoints fmt [[(''sleep debt (min)'', Num (- 30))]] =
     [\<lparr>content = ''most recently, your sleep debt (min) was -1h -30m'',
       date = Str ''day 1'', metric = ''sleep debt (min)'', dvalue = ''-1h -30m'',
       source = ''csv_data'', recency = Some 0\<rparr>]
   \<and> hoursMinutes (298 / 5) = ''0h 60m''"
  by (simp add: csvPoints_def rowPoints_def fieldPoints_def field_def formatValue_def
      sleep_debt_key_is_duration minus_30_not_blank hoursMinutes_minus_30
      hoursMinutes_59_6 fieldContent_def timeContext_def dateLabel_def sourceTag_def
      natToString.simps Let_def)

lemma in_set_indexed:
  "(i, r) \<in> set (zip [0..<length rows] rows) \<longleftrightarrow> i < length rows \<and> r = rows ! i"
  using in_set_enumerate_eq [of "(i, r)" 0 rows] by (auto simp add: enumerate_eq_zip)

lemma csvPoints_member:
  "d \<in> set (csvPoints fmt csvData) \<longleftrightarrow>
     (\<exists>index<length csvData. \<exists>key \<in> set (map fst (csvData ! index)).
        d \<in> set (fieldPoints fmt index (csvData ! index) key))"
proof
  assume "d \<in> set (csvPoints fmt csvData)"
  then obtain index r where "(index, r) \<in> set (zip [0..<length csvData] csvData)"
    and "d \<in> set (rowPoints fmt index r)"
    by (auto simp add: csvPoints_def)
  then show "\<exists>index<length csvData. \<exists>key \<in> set (map fst (csvData ! index)).
        d \<in> set (fieldPoints fmt index (csvData ! index) key)"
    by (auto simp add: in_set_indexed rowPoints_def)
next
  assume "\<exists>index<length csvData. \<exists>key \<in> set (map fst (csvData ! index)).
        d \<in> set (fieldPoints fmt index (csvData ! index) key)"
  then obtain index key where i: "index < length csvData"
    and k: "key \<in> set (map fst (csvData ! index))"
    and d: "d \<in> set (fieldPoints fmt index (csvData ! index) key)"
    by blast
  from k d have "d \<in> set (rowPoints fmt index (csvData ! index))"
    by (auto simp add: rowPoints_def)
  moreover from i have "(index, csvData ! index) \<in> set (zip [0..<length csvData] csvData)"
    by (simp add: in_set_indexed)
  ultimately show "d \<in> set (csvPoints fmt csvData)"
    unfolding csvPoints_def set_concat set_map by blast
qed

lemma fieldPoints_member:
  assumes "d \<in> set (fieldPoints fmt index r key)"
  shows "key \<noteq> ''_source_file''" and "truthy (field r key)"
    and "trim (cellToString fmt (field r key)) \<noteq> []"
    and "d = \<lparr>content = fieldContent fmt index r key (formatValue fmt key (field r key)),
               date = dateLabel r index, metric = key,
               dvalue = formatValue fmt key (field r key),
               source = sourceTag fmt r, recency = Some (int index)\<rparr>"
  using assms by (simp_all add: fieldPoints_def Let_def split: if_splits)

lemma sleepDebtPoints_member:
  assumes "d \<in> set (sleepDebtPoints fmt csvData)"
  shows "(\<exists>index<7. \<exists>r. d = debtPoint fmt index r) \<or> d = debtTrendPoint fmt (sleepDebtEntries csvData)"
proof -
  let ?es = "sleepDebtEntries csvData"
  have len: "length ?es \<le> 7"
    by (simp add: sleepDebtEntries_def)
  from assms have "d = debtTrendPoint fmt ?es
      \<or> (\<exists>index r. (index, r) \<in> set (zip [0..<length ?es] ?es) \<and> d = debtPoint fmt index r)"
    by (auto simp add: sleepDebtPoints_def Let_def split: if_splits)
  then show ?thesis
  proof
    assume "d = debtTrendPoint fmt ?es"
    then show ?thesis ..
  next
    assume "\<exists>index r. (index, r) \<in> set (zip [0..<length ?es] ?es) \<and> d = debtPoint fmt index r"
    then obtain index r where "index < length ?es" and "d = debtPoint fmt index r"
      by (auto simp add: in_set_indexed)
    with len have "index < 7 \<and> d = debtPoint fmt index r"
      by simp
    then show ?thesis
      by blast
  qed
qed

lemma debtPoint_content:
  "content (debtPoint fmt index r) =
     ''Sleep debt '' @ timeRef index @ '': ''
       @ (if parseFloatOr0 (field r ''sleep debt (min)'') \<ge> 0 then ''+'' else [])
       @ toFixed1 (\<bar>parseFloatOr0 (field r ''sleep debt (min)'')\<bar> / 60)
       @ '' hours ('' @ debtStatus (parseFloatOr0 (field r ''sleep debt (min)'')) @ '')''"
  by (simp add: debtPoint_def Let_def)

lemma debtTrendPoint_content:
  "\<exists>total avg status. content (debtTrendPoint fmt entries) =
     ''Sleep debt 7-day trend: '' @ toFixed1 total @ '' hours total, '' @ toFixed1 avg
       @ '' hours average daily ('' @ status @ '')''"
  unfolding debtTrendPoint_def Let_def by (simp del: append_assoc) blast

text \<open>
  C4, amended. The time reference of a data point is fixed by where it comes from. A field
  of one of the 7 most recent rows (index below 7) gives \<open>most recently\<close>, \<open>recently\<close> or
  \<open>in recent days\<close>; a field of an older row gives \<open>On\<close> followed by the row's own date
  when the row has one, and by \<open>day N\<close> (\<open>N\<close> the index plus 1) only when it has none.
  A current metric has no time reference. A sleep-debt point says \<open>most recent night\<close> or
  \<open>N day(s) ago\<close>, and the sleep-debt trend \<open>7-day trend\<close>.
\<close>

theorem content_time_references:
  assumes "d \<in> set (buildKnowledgeBase fmt csvData dynamicMetrics)"
  shows "(\<exists>index<length csvData. \<exists>key \<in> set (map fst (csvData ! index)).
            content d =
              (if index = 0 then ''most recently''
               else if index = 1 then ''recently''
               else if index < 7 then ''in recent days''
               else if truthy (field (csvData ! index) ''date'')
                 then ''On '' @ cellToString fmt (field (csvData ! index) ''date'')
               else ''On day '' @ natToString (index + 1))
              @ '', your '' @ key @ '' was '' @ formatValue fmt key (field (csvData ! index) key))
       \<or> (\<exists>m \<in> set dynamicMetrics.
            content d = ''Your current '' @ title m @ '' is '' @ mvalue m @ '' - '' @ subtitle m)
       \<or> (\<exists>index<7. \<exists>debtMinutes.
            content d =
              ''Sleep debt ''
              @ (if index = 0 then ''most recent night''
                 else natToString index @ '' '' @ (if index = 1 then ''day'' else ''days'') @ '' ago'')
              @ '': '' @ (if debtMinutes \<ge> 0 then ''+'' else []) @ toFixed1 (\<bar>debtMinutes\<bar> / 60)
              @ '' hours ('' @ debtStatus debtMinutes @ '')'')
       \<or> (\<exists>total avg status.
            content d =
              ''Sleep debt 7-day trend: '' @ toFixed1 total @ '' hours total, '' @ toFixed1 avg
              @ '' hours average daily ('' @ status @ '')'')"
proof -
  from assms consider
      (csv) "d \<in> set (csvPoints fmt csvData)"
    | (cur) "d \<in> set (map metricPoint dynamicMetrics)"
    | (debt) "d \<in> set (sleepDebtPoints fmt csvData)"
    by (auto simp add: buildKnowledgeBase_def)
  then show ?thesis
  proof cases
    case csv
    then obtain index key where i: "index < length csvData"
      and k: "key \<in> set (map fst (csvData ! index))"
      and m: "d \<in> set (fieldPoints fmt index (csvData ! index) key)"
      unfolding csvPoints_member by blast
    have "content d =
              (if index = 0 then ''most recently''
               else if index = 1 then ''recently''
               else if index < 7 then ''in recent days''
               else if truthy (field (csvData ! index) ''date'')
                 then ''On '' @ cellToString fmt (field (csvData ! index) ''date'')
               else ''On day '' @ natToString (index + 1))
              @ '', your '' @ key @ '' was '' @ formatValue fmt key (field (csvData ! index) key)"
      unfolding fieldPoints_member(4) [OF m]
      by (simp add: fieldContent_def timeContext_def dateLabel_def)
    with i k show ?thesis
      by blast
  next
    case cur
    then obtain m where "m \<in> set dynamicMetrics" and "d = metricPoint m"
      by auto
    then have "\<exists>m \<in> set dynamicMetrics.
        content d = ''Your current '' @ title m @ '' is '' @ mvalue m @ '' - '' @ subtitle m"
      by (auto simp add: metricPoint_def)
    then show ?thesis
      by blast
  next
    case debt
    then show ?thesis
    proof (rule sleepDebtPoints_member [THEN disjE])
      assume "\<exists>index<7. \<exists>r. d = debtPoint fmt index r"
      then obtain index r where "index < 7" and "d = debtPoint fmt index r"
        by blast
      then have "index < 7 \<and>
            content d =
              ''Sleep debt ''
              @ (if index = 0 then ''most recent night''
                 else natToString index @ '' '' @ (if index = 1 then ''day'' else ''days'') @ '' ago'')
              @ '': '' @ (if parseFloatOr0 (field r ''sleep debt (min)'') \<ge> 0 then ''+'' else [])
              @ toFixed1 (\<bar>parseFloatOr0 (field r ''sleep debt (min)'')\<bar> / 60)
              @ '' hours ('' @ debtStatus (parseFloatOr0 (field r ''sleep debt (min)'')) @ '')''"
        by (simp add: debtPoint_content timeRef_def)
      then have "\<exists>index<7. \<exists>debtMinutes.
            content d =
              ''Sleep debt ''
              @ (if index = 0 then ''most recent night''
                 else natToString index @ '' '' @ (if index = 1 then ''day'' else ''days'') @ '' ago'')
              @ '': '' @ (if debtMinutes \<ge> 0 then ''+'' else []) @ toFixed1 (\<bar>debtMinutes\<bar> / 60)
              @ '' hours ('' @ debtStatus debtMinutes @ '')''"
        by blast
      then show ?thesis
        by blast
    next
      assume "d = debtTrendPoint fmt (sleepDebtEntries csvData)"
      then show ?thesis
        using debtTrendPoint_content [of fmt "sleepDebtEntries csvData"] by simp
    qed
  qed
qed

lemma recovery_key_not_duration: "\<not> isDurationKey (toLowerCase ''recovery score %'')"
  by (simp add: isDurationKey_def toLowerCase_def toLowerChar_def)

lemma render_55: "numToString fmt 55 = ''55''"
  by (simp add: numToString_def intToString_def natToString.simps)

lemma eighth_day_point:
  "fieldPoints fmt 7 [(''date'', Str ''2024-01-01''), (''recovery score %'', Num 55)]
     ''recovery score %'' =
   [\<lparr>content = ''On 2024-01-01, your recovery score % was 55'', date = Str ''2024-01-01'',
     metric = ''recovery score %'', dvalue = ''55'', source = ''csv_data'',
     recency = Some 7\<rparr>]"
  by (simp add: fieldPoints_def field_def Let_def render_55 trim_def isSpace_def formatValue_def
      recovery_key_not_duration fieldContent_def timeContext_def dateLabel_def sourceTag_def)

lemma eighth_day_in_base:
  "\<lparr>content = ''On 2024-01-01, your recovery score % was 55'', date = Str ''2024-01-01'',
     metric = ''recovery score %'', dvalue = ''55'', source = ''csv_data'',
     recency = Some 7\<rparr>
   \<in> set (buildKnowledgeBase fmt
       (map (\<lambda>day. [(''date'', Str day), (''recovery score %'', Num 55)])
          [''2024-01-08'', ''2024-01-07'', ''2024-01-06'', ''2024-01-05'', ''2024-01-04'',
           ''2024-01-03'', ''2024-01-02'', ''2024-01-01''])
       [])"
proof -
  let ?rows = "map (\<lambda>day. [(''date'', Str day), (''recovery score %'', Num 55)])
          [''2024-01-08'', ''2024-01-07'', ''2024-01-06'', ''2024-01-05'', ''2024-01-04'',
           ''2024-01-03'', ''2024-01-02'', ''2024-01-01'']"
  have r: "?rows ! 7 = [(''date'', Str ''2024-01-01''), (''recovery score %'', Num 55)]"
    by simp
  have "7 < length ?rows"
    by simp
  moreover have "''recovery score %'' \<in> set (map fst (?rows ! 7))"
    unfolding r by simp
  moreover have "\<lparr>content = ''On 2024-01-01, your recovery score % was 55'', date = Str ''2024-01-01'',
     metric = ''recovery score %'', dvalue = ''55'', source = ''csv_data'',
     recency = Some 7\<rparr> \<in> set (fieldPoints fmt 7 (?rows ! 7) ''recovery score %'')"
    unfolding r eighth_day_point by simp
  ultimately have "\<lparr>content = ''On 2024-01-01, your recovery score % was 55'', date = Str ''2024-01-01'',
     metric = ''recovery score %'', dvalue = ''55'', source = ''csv_data'',
     recency = Some 7\<rparr> \<in> set (csvPoints fmt ?rows)"
    unfolding csvPoints_member by blast
  then show ?thesis
    by (simp add: buildKnowledgeBase_def)
qed

text \<open>
  C4, as stated, fails: of eight dated rows the eighth (index 7) gives a data point whose
  content starts with the row's calendar date.
\<close>

theorem old_rows_carry_their_date:
  "\<lparr>content = ''On 2024-01-01, your recovery score % was 55'', date = Str ''2024-01-01'',
     metric = ''recovery score %'', dvalue = ''55'', source = ''csv_data'',
     recency = Some 7\<rparr>
   \<in> set (buildKnowledgeBase (\<lambda>x. [])
       (map (\<lambda>day. [(''date'', Str day), (''recovery score %'', Num 55)])
          [''2024-01-08'', ''2024-01-07'', ''2024-01-06'', ''2024-01-05'', ''2024-01-04'',
           ''2024-01-03'', ''2024-01-02'', ''2024-01-01''])
       [])
   \<and> field (map (\<lambda>day. [(''date'', Str day), (''recovery score %'', Num 55)])
          [''2024-01-08'', ''2024-01-07'', ''2024-01-06'', ''2024-01-05'', ''2024-01-04'',
           ''2024-01-03'', ''2024-01-02'', ''2024-01-01''] ! 7) ''date'' = Str ''2024-01-01''
   \<and> strIncludes ''On 2024-01-01, your recovery score % was 55'' ''2024-01-01''"
  using eighth_day_in_base [of "\<lambda>x. []"] by (simp add: field_def)

text \<open>The amended C4 at that data point.\<close>

theorem content_time_references_witness:
  "\<lparr>content = ''On 2024-01-01, your recovery score % was 55'', date = Str ''2024-01-01'',
     metric = ''recovery score %'', dvalue = ''55'', source = ''csv_data'',
     recency = Some 7\<rparr>
   \<in> set (buildKnowledgeBase (\<lambda>x. [])
       (map (\<lambda>day. [(''date'', Str day), (''recovery score %'', Num 55)])
          [''2024-01-08'', ''2024-01-07'', ''2024-01-06'', ''2024-01-05'', ''2024-01-04'',
           ''2024-01-03'', ''2024-01-02'', ''2024-01-01''])
       [])
   \<and> ((\<exists>index<length (map (\<lambda>day. [(''date'', Str day), (''recovery score %'', Num 55)])
          [''2024-01-08'', ''2024-01-07'', ''2024-01-06'', ''2024-01-05'', ''2024-01-04'',
           ''2024-01-03'', ''2024-01-02'', ''2024-01-01'']).
         \<exists>key \<in> set (map fst (map (\<lambda>day. [(''date'', Str day), (''recovery score %'', Num 55)])
          [''2024-01-08'', ''2024-01-07'', ''2024-01-06'', ''2024-01-05'', ''2024-01-04'',
           ''2024-01-03'', ''2024-01-02'', ''2024-01-01''] ! index)).
            ''On 2024-01-01, your recovery score % was 55'' =
              (if index = 0 then ''most recently''
               else if index = 1 then ''recently''
               else if index < 7 then ''in recent days''
               else if truthy (field (map (\<lambda>day. [(''date'', Str day), (''recovery score %'', Num 55)])
          [''2024-01-08'', ''2024-01-07'', ''2024-01-06'', ''2024-01-05'', ''2024-01-04'',
           ''2024-01-03'', ''2024-01-02'', ''2024-01-01''] ! index) ''date'')
                 then ''On '' @ cellToString (\<lambda>x. []) (field (map (\<lambda>day. [(''date'', Str day), (''recovery score %'', Num 55)])
          [''2024-01-08'', ''2024-01-07'', ''2024-01-06'', ''2024-01-05'', ''2024-01-04'',
           ''2024-01-03'', ''2024-01-02'', ''2024-01-01''] ! index) ''date'')
               else ''On day '' @ natToString (index + 1))
              @ '', your '' @ key @ '' was '' @ formatValue (\<lambda>x. []) key (field (map (\<lambda>day. [(''date'', Str day), (''recovery score %'', Num 55)])
          [''2024-01-08'', ''2024-01-07'', ''2024-01-06'', ''2024-01-05'', ''2024-01-04'',
           ''2024-01-03'', ''2024-01-02'', ''2024-01-01''] ! index) key))
       \<or> (\<exists>m \<in> set ([] :: namedValue list).
            ''On 2024-01-01, your recovery score % was 55'' = ''Your current '' @ title m @ '' is '' @ mvalue m @ '' - '' @ subtitle m)
       \<or> (\<exists>index<7. \<exists>debtMinutes.
            ''On 2024-01-01, your recovery score % was 55'' =
              ''Sleep debt ''
              @ (if index = 0 then ''most recent night''
                 else natToString index @ '' '' @ (if index = 1 then ''day'' else ''days'') @ '' ago'')
              @ '': '' @ (if debtMinutes \<ge> 0 then ''+'' else []) @ toFixed1 (\<bar>debtMinutes\<bar> / 60)
              @ '' hours ('' @ debtStatus debtMinutes @ '')'')
       \<or> (\<exists>total avg status.
            ''On 2024-01-01, your recovery score % was 55'' =
              ''Sleep debt 7-day trend: '' @ toFixed1 total @ '' hours total, '' @ toFixed1 avg
              @ '' hours average daily ('' @ status @ '')''))"
proof -
  note m = eighth_day_in_base [of "\<lambda>x. []"]
  from m content_time_references [OF m] show ?thesis
    by (simp only: dataPoint.select_convs)
qed

lemma sleepDebtPoints_source:
  "d \<in> set (sleepDebtPoints fmt csvData) \<Longrightarrow>
     source d = ''sleep_debt_tracking'' \<or> source d = ''sleep_debt_analysis''"
  by (drule sleepDebtPoints_member) (auto simp add: debtPoint_def debtTrendPoint_def Let_def)

text \<open>
  C9, amended. The pass over the fields makes no data point for a field whose value is
  falsy (the number 0, the empty text, \<open>null\<close>, a missing value): every data point of
  the knowledge base is the point of a field with a truthy value that does not print
  blank, or a current metric, or a sleep-debt point (source \<open>sleep_debt_tracking\<close> or
  \<open>sleep_debt_analysis\<close>). So a reading of 0 is absent from the points of the fields.
\<close>

theorem falsy_fields_give_no_field_point:
  "(\<not> truthy (field r key) \<longrightarrow> fieldPoints fmt index r key = [])
   \<and> (\<forall>d \<in> set (buildKnowledgeBase fmt csvData dynamicMetrics).
        (\<exists>index<length csvData. \<exists>key \<in> set (map fst (csvData ! index)).
           truthy (field (csvData ! index) key)
           \<and> trim (cellToString fmt (field (csvData ! index) key)) \<noteq> []
           \<and> d \<in> set (fieldPoints fmt index (csvData ! index) key))
        \<or> d \<in> set (map metricPoint dynamicMetrics)
        \<or> source d = ''sleep_debt_tracking'' \<or> source d = ''sleep_debt_analysis'')"
proof (intro conjI impI ballI)
  assume "\<not> truthy (field r key)"
  then show "fieldPoints fmt index r key = []"
    by (simp add: fieldPoints_def Let_def)
next
  fix d
  assume "d \<in> set (buildKnowledgeBase fmt csvData dynamicMetrics)"
  then consider
      (csv) "d \<in> set (csvPoints fmt csvData)"
    | (cur) "d \<in> set (map metricPoint dynamicMetrics)"
    | (debt) "d \<in> set (sleepDebtPoints fmt csvData)"
    by (auto simp add: buildKnowledgeBase_def)
  then show "(\<exists>index<length csvData. \<exists>key \<in> set (map fst (csvData ! index)).
           truthy (field (csvData ! index) key)
           \<and> trim (cellToString fmt (field (csvData ! index) key)) \<noteq> []
           \<and> d \<in> set (fieldPoints fmt index (csvData ! index) key))
        \<or> d \<in> set (map metricPoint dynamicMetrics)
        \<or> source d = ''sleep_debt_tracking'' \<or> source d = ''sleep_debt_analysis''"
  proof cases
    case csv
    then obtain index key where "index < length csvData"
      and "key \<in> set (map fst (csvData ! index))"
      and m: "d \<in> set (fieldPoints fmt index (csvData ! index) key)"
      unfolding csvPoints_member by blast
    with fieldPoints_member(2, 3) [OF m] show ?thesis
      by blast
  next
    case cur
    then show ?thesis
      by blast
  next
    case debt
    then show ?thesis
      using sleepDebtPoints_source by blast
  qed
qed

lemma zero_tenths: "toFixed1 0 = ''0.0''"
  by (simp add: toFixed1_def natToString.simps Let_def)

lemma render_0: "numToString fmt 0 = ''0''"
  by (simp add: numToString_def intToString_def natToString.simps)

lemma zero_debt_row_has_debt: "hasSleepDebt [(''sleep debt (min)'', Num 0)]"
  by (simp add: hasSleepDebt_def field_def)

text \<open>
  C9, as stated, fails for one field: a sleep debt of 0 minutes gives no point of its
  field, but the sleep-debt analysis keeps every value other than \<open>undefined\<close>, \<open>null\<close> and
  the empty text, so the 0 is in the knowledge base as a tracking point (and in the trend).
\<close>

theorem zero_sleep_debt_still_tracked:
  "buildKnowledgeBase (\<lambda>x. []) [[(''sleep debt (min)'', Num 0)]] [] =
     [\<lparr>content = ''Sleep debt most recent night: +0.0 hours (balanced)'', date = Undef,
        metric = ''Sleep Debt Analysis'', dvalue = ''0'', source = ''sleep_debt_tracking'',
        recency = Some 0\<rparr>,
      \<lparr>content = ''Sleep debt 7-day trend: 0.0 hours total, 0.0 hours average daily (maintaining balance)'',
        date = Undef, metric = ''Sleep Debt Trend'', dvalue = ''0'',
        source = ''sleep_debt_analysis'', recency = Some 0\<rparr>]"
  by (simp add: buildKnowledgeBase_def csvPoints_def rowPoints_def fieldPoints_def
      sleepDebtPoints_def sleepDebtEntries_def zero_debt_row_has_debt debtPoint_def
      debtTrendPoint_def field_def parseFloatOr0_def timeRef_def debtStatus_def zero_tenths
      render_0 Let_def)

lemma strain_key_not_duration: "\<not> isDurationKey (toLowerCase ''day strain'')"
  by (simp add: isDurationKey_def toLowerCase_def toLowerChar_def)

lemma render_12: "numToString fmt 12 = ''12''"
  by (simp add: numToString_def intToString_def natToString.simps)

lemma strain_point:
  "fieldPoints fmt 0 [(''recovery score %'', Num 0), (''day strain'', Num 12)] ''day strain'' =
   [\<lparr>content = ''most recently, your day strain was 12'', date = Str ''day 1'',
     metric = ''day strain'', dvalue = ''12'', source = ''csv_data'', recency = Some 0\<rparr>]"
  by (simp add: fieldPoints_def field_def Let_def render_12 trim_def isSpace_def formatValue_def
      strain_key_not_duration fieldContent_def timeContext_def dateLabel_def sourceTag_def
      natToString.simps)

lemma zero_recovery_row_has_no_debt:
  "\<not> hasSleepDebt [(''recovery score %'', Num 0), (''day strain'', Num 12)]"
  by (simp add: hasSleepDebt_def field_def)

lemma zero_recovery_base:
  "buildKnowledgeBase fmt [[(''recovery score %'', Num 0), (''day strain'', Num 12)]] [] =
   [\<lparr>content = ''most recently, your day strain was 12'', date = Str ''day 1'',
     metric = ''day strain'', dvalue = ''12'', source = ''csv_data'', recency = Some 0\<rparr>]"
proof -
  have "fieldPoints fmt 0 [(''recovery score %'', Num 0), (''day strain'', Num 12)]
      ''recovery score %'' = []"
    by (simp add: fieldPoints_def field_def)
  then show ?thesis
    by (simp add: buildKnowledgeBase_def csvPoints_def rowPoints_def strain_point
        sleepDebtPoints_def sleepDebtEntries_def zero_recovery_row_has_no_debt)
qed

text \<open>The amended C9 on a row with a recovery of 0 and a strain of 12.\<close>

theorem falsy_fields_give_no_field_point_witness:
  "\<not> truthy (field [(''recovery score %'', Num 0), (''day strain'', Num 12)] ''recovery score %'')
   \<and> fieldPoints (\<lambda>x. []) 0 [(''recovery score %'', Num 0), (''day strain'', Num 12)]
        ''recovery score %'' = []
   \<and> buildKnowledgeBase (\<lambda>x. []) [[(''recovery score %'', Num 0), (''day strain'', Num 12)]] [] =
       [\<lparr>content = ''most recently, your day strain was 12'', date = Str ''day 1'',
         metric = ''day strain'', dvalue = ''12'', source = ''csv_data'', recency = Some 0\<rparr>]
   \<and> (\<exists>index<length [[(''recovery score %'', Num 0), (''day strain'', Num (12::real))]].
        \<exists>key \<in> set (map fst ([[(''recovery score %'', Num 0), (''day strain'', Num 12)]] ! index)).
          truthy (field ([[(''recovery score %'', Num 0), (''day strain'', Num 12)]] ! index) key)
          \<and> \<lparr>content = ''most recently, your day strain was 12'', date = Str ''day 1'',
              metric = ''day strain'', dvalue = ''12'', source = ''csv_data'', recency = Some 0\<rparr>
            \<in> set (fieldPoints (\<lambda>x. []) index
                ([[(''recovery score %'', Num 0), (''day strain'', Num 12)]] ! index) key))"
proof -
  let ?r = "[(''recovery score %'', Num 0), (''day strain'', Num (12::real))]"
  let ?d = "\<lparr>content = ''most recently, your day strain was 12'', date = Str ''day 1'',
         metric = ''day strain'', dvalue = ''12'', source = ''csv_data'', recency = Some 0\<rparr>"
  note t = falsy_fields_give_no_field_point [of ?r "''recovery score %''" "\<lambda>x. []" 0 "[?r]" "[]"]
  have falsy: "\<not> truthy (field ?r ''recovery score %'')"
    by (simp add: field_def)
  with t have none: "fieldPoints (\<lambda>x. []) 0 ?r ''recovery score %'' = []"
    by blast
  have base: "buildKnowledgeBase (\<lambda>x. []) [?r] [] = [?d]"
    by (rule zero_recovery_base)
  then have "?d \<in> set (buildKnowledgeBase (\<lambda>x. []) [?r] [])"
    by simp
  with t have "(\<exists>index<length [?r]. \<exists>key \<in> set (map fst ([?r] ! index)).
           truthy (field ([?r] ! index) key)
           \<and> trim (cellToString (\<lambda>x. []) (field ([?r] ! index) key)) \<noteq> []
           \<and> ?d \<in> set (fieldPoints (\<lambda>x. []) index ([?r] ! index) key))
        \<or> ?d \<in> set (map metricPoint [])
        \<or> source ?d = ''sleep_debt_tracking'' \<or> source ?d = ''sleep_debt_analysis''"
    by blast
  then have "\<exists>index<length [?r]. \<exists>key \<in> set (map fst ([?r] ! index)).
           truthy (field ([?r] ! index) key)
           \<and> ?d \<in> set (fieldPoints (\<lambda>x. []) index ([?r] ! index) key)"
    by (elim disjE) (blast, simp_all)
  with falsy none base show ?thesis
    by blast
qed

subsection \<open>Forecasts\<close>

lemma variance_recovery_week: "calculateVariance [60, 60, 60, 60, 60, 60, 81] = 54"
  by (simp add: calculateVariance_def Let_def)

lemma variance_strain_week: "calculateVariance [10, 10, 10, 10, 10, 10, 10] = 0"
  by (simp add: calculateVariance_def Let_def)

lemma sqrt_54_le_8: "sqrt 54 \<le> 8"
  by (rule real_le_lsqrt) simp_all

lemma cv_of_the_weeks:
  "cvHigh 54 63" "\<not> specCvHigh 54 63" "\<not> cvHigh 0 10" "\<not> specCvHigh 0 10"
  using sqrt_54_le_8 by (simp_all add: cvHigh_def specCvHigh_def)

lemma reduce_recovery_week:
  "reduceForVariance c 
     [60, 60, 60, 60, 60, 60, 81, 60, 60, 60, 60, 60, 60, 60] = c * 0.8"
  "specReduceForVariance c 
     [60, 60, 60, 60, 60, 60, 81, 60, 60, 60, 60, 60, 60, 60] = c"
  by (simp_all add: reduceForVariance_def specReduceForVariance_def variance_recovery_week
      cv_of_the_weeks Let_def)

lemma reduce_strain_week:
  "reduceForVariance c 
     [10, 10, 10, 10, 10, 10, 10, 10, 10, 10, 10, 10, 10, 10] = c"
  "specReduceForVariance c 
     [10, 10, 10, 10, 10, 10, 10, 10, 10, 10, 10, 10, 10, 10] = c"
  by (simp_all add: reduceForVariance_def specReduceForVariance_def variance_strain_week
      cv_of_the_weeks Let_def)

text \<open>
  C5. The claim describes the helper with the coefficient of variation as the standard
  deviation over the mean. The code names its quantity \<open>cv\<close> and comments it as the
  coefficient of variation, but divides the variance by the mean. For 14 days of recovery
  whose last week is six times 60 and once 81 (mean 63, variance 54, standard deviation
  about 7.3) and a constant strain, the code's quotient is 0.857 and the confidence is
  0.9 * 0.8 = 0.72; with the standard deviation the quotient is 0.117 and the confidence
  stays 0.9. The minimum with 0.9, the factor 0.8 for series of more than 3 points, the
  window of 7 and the clamp to [0.5, 0.95] are as claimed.
\<close>

theorem confidence_divides_variance_by_mean:
  "calculateConfidence [
     [60, 60, 60, 60, 60, 60, 81, 60, 60, 60, 60, 60, 60, 60], 
     [10, 10, 10, 10, 10, 10, 10, 10, 10, 10, 10, 10, 10, 10]] = 18 / 25
   \<and> specConfidence [
     [60, 60, 60, 60, 60, 60, 81, 60, 60, 60, 60, 60, 60, 60], 
     [10, 10, 10, 10, 10, 10, 10, 10, 10, 10, 10, 10, 10, 10]] = 9 / 10"
  by (simp add: calculateConfidence_def specConfidence_def reduce_recovery_week
      reduce_strain_week Let_def)

lemma upt_small: "[0..<7] = [0, Suc 0, 2, 3, 4, 5, 6]" "[0..<3] = [0, Suc 0, 2]"
  by (simp_all add: upt_rec)

lemma scan_first_three:
  "foldl (riskStep [40, 40, 40, 60, 60, 60, 60] [15, 15, 15, 10, 10, 10, 10]) (0, 0) [0..<3] = (3, 45)"
  by (simp add: upt_small riskStep_def riskDay_def)

lemma scan_all_seven:
  "riskScan [40, 40, 40, 60, 60, 60, 60] [15, 15, 15, 10, 10, 10, 10] = (0, 45)"
  by (simp add: riskScan_def upt_small riskStep_def riskDay_def)

lemma zero_digits: "natToString 0 = ''0''"
  by (simp add: natToString.simps)

text \<open>
  C6. The claim adds 25 once the counter of consecutive days reaches 3 at any point of
  the scan, and the code's comments promise a check and a bonus for consecutive days. The
  code tests the counter once, after the scan, when a later day of the scan may have
  reset it. The rows are most recent first: recovery 40 and strain 15 on the three most
  recent days, recovery 60 and strain 10 on the four days before. After the third day of
  the scan the counter is 3; after the scan it is 0, so no bonus is added: the score is
  3 times 15 = 45 where the claim gives 70, and the forecast reports 0 consecutive
  high-risk days.
\<close>

theorem streak_lost_before_end_of_scan:
  "fst (foldl (riskStep [40, 40, 40, 60, 60, 60, 60] [15, 15, 15, 10, 10, 10, 10]) (0, 0) [0..<3]) = 3
   \<and> riskScan [40, 40, 40, 60, 60, 60, 60] [15, 15, 15, 10, 10, 10, 10] = (0, 45)
   \<and> prediction (assessInjuryRisk
        (map (\<lambda>(r, s). [(''recovery score %'', Num r), (''day strain'', Num s)])
           (zip [40, 40, 40, 60, 60, 60, 60] [15, 15, 15, 10, 10, 10, 10]))) = 45
   \<and> reasoning (assessInjuryRisk
        (map (\<lambda>(r, s). [(''recovery score %'', Num r), (''day strain'', Num s)])
           (zip [40, 40, 40, 60, 60, 60, 60] [15, 15, 15, 10, 10, 10, 10])))
       = ''0 consecutive high-risk days, HRV trend: stable, strain pattern analysis''"
  by (simp add: scan_first_three assessInjuryRisk_def getMetricData_def List.map_filter_def
      field_def injuryRiskScore_def consecutiveRisk_def scan_all_seven mathRound_def zero_digits)

text \<open>
  C8. A forecast whose series is too short (fewer than 7 recovery points for the recovery
  forecast and the injury risk, which also needs 7 strain points; fewer than 5 points of
  sleep need or of sleep duration for the sleep debt; fewer than 5 recovery points for the
  performance) is the placeholder of its kind, with confidence 0; and every forecast that
  \<open>generatePredictions\<close> returns has a confidence above 0.6. The functions are total:
  nothing is thrown.
\<close>

theorem insufficient_data_placeholders:
  "(length (getMetricData rows ''recovery score %'') < 7 \<longrightarrow>
      predictRecoveryScore rows =
        \<lparr>ptype = RecoveryForecast, prediction = 0, confidence = 0, timeframe = ''tomorrow'',
         reasoning = ''Insufficient data'', precommendations = NoRecommendations\<rparr>)
   \<and> (length (getMetricData rows ''recovery score %'') < 7
        \<or> length (getMetricData rows ''day strain'') < 7 \<longrightarrow>
      assessInjuryRisk rows =
        \<lparr>ptype = InjuryRiskForecast, prediction = 0, confidence = 0,
         timeframe = ''next 2 weeks'',
         reasoning = ''Insufficient data for injury risk assessment'',
         precommendations = NoRecommendations\<rparr>)
   \<and> (length (getMetricData rows ''sleep need (min)'') < 5
        \<or> length (getMetricData rows ''asleep duration (min)'') < 5 \<longrightarrow>
      predictSleepDebt rows =
        \<lparr>ptype = SleepDebtForecast, prediction = 0, confidence = 0, timeframe = ''current'',
         reasoning = ''Insufficient sleep data'', precommendations = NoRecommendations\<rparr>)
   \<and> (length (getMetricData rows ''recovery score %'') < 5 \<longrightarrow>
      predictPerformanceReadiness rows =
        \<lparr>ptype = PerformanceForecast, prediction = 0, confidence = 0,
         timeframe = ''next 3 days'', reasoning = ''Insufficient performance data'',
         precommendations = NoRecommendations\<rparr>)
   \<and> (\<forall>p \<in> set (generatePredictions rows). confidence p > 0.6)"
  by (simp add: predictRecoveryScore_def assessInjuryRisk_def predictSleepDebt_def
      sleepDebtForecast_def predictPerformanceReadiness_def generatePredictions_def)

lemma getMetricData_replicate:
  "getMetricData (replicate n r) k =
     (case parseFloat (field r k) of None \<Rightarrow> [] | Some x \<Rightarrow> replicate n x)"
  by (induction n) (simp_all add: getMetricData_def List.map_filter_simps split: option.split)

lemma calculateVariance_replicate: "calculateVariance (replicate n x) = 0"
  by (simp add: calculateVariance_def Let_def sum_list_replicate)

lemma weeklyDeficits_two_weeks:
  "weeklyDeficits (replicate 14 a) (replicate 14 b) =
     [a - b, a - b, a - b, a - b, a - b, a - b, a - b]"
  by (simp add: weeklyDeficits_def upt_rec)

lemma confidence_two_weeks: "calculateConfidence [replicate 14 480, replicate 14 450] = 9 / 10"
  by (simp add: calculateConfidence_def reduceForVariance_def calculateVariance_replicate
      cvHigh_def Let_def sum_list_replicate)

lemma tenths_floor:
  "\<lfloor>(7::real) / 2 * 10 + 1 / 2\<rfloor> = 35"
  "\<lfloor>(1::real) / 2 * 10 + 1 / 2\<rfloor> = 5"
  "\<lfloor>(7::real) * 10 + 1 / 2\<rfloor> = 70"
  by simp_all

lemma tenths_digits: "natToString 35 = ''35''" "natToString 5 = ''5''" "natToString 70 = ''70''"
  by (simp_all add: natToString.simps)

lemma toFixed1_examples:
  "toFixed1 (7 / 2) = ''3.5''" "toFixed1 (1 / 2) = ''0.5''" "toFixed1 7 = ''7.0''"
  by (simp_all add: toFixed1_def tenths_floor tenths_digits Let_def)

lemma sleep_debt_two_weeks:
  "sleepDebtForecast (replicate 14 480) (replicate 14 450) [] =
     \<lparr>ptype = SleepDebtForecast, prediction = 420, confidence = 9 / 10,
      timeframe = ''current & 1 week projection'',
      reasoning = ''Current debt: +3.5h. Recent avg deficit: 0.5h/day. Projected: +7.0h'',
      precommendations = SleepDebtSignificant\<rparr>"
  by (simp add: sleepDebtForecast_def weeklyDeficits_two_weeks confidence_two_weeks
      currentSleepDebt_def Let_def mathRound_def signedHours_def toFixed1_examples)

lemma predictions_two_weeks:
  "generatePredictions 
        (replicate 14 [(''sleep need (min)'', Num 480), (''asleep duration (min)'', Num 450)]) \<noteq> []"
  by (simp add: generatePredictions_def predictSleepDebt_def getMetricData_replicate field_def
      sleep_debt_two_weeks)

text \<open>
  C8 on four days of recovery alone, where every forecast is a placeholder, and on two
  weeks of sleep need 480 and sleep 450, where the sleep-debt forecast is returned with
  confidence 0.9.
\<close>

theorem insufficient_data_placeholders_witness:
  "length (getMetricData 
        (replicate 4 [(''recovery score %'', Num 60)]) ''recovery score %'') < 5
   \<and> length (getMetricData 
        (replicate 4 [(''recovery score %'', Num 60)]) ''sleep need (min)'') < 5
   \<and> confidence (predictRecoveryScore 
        (replicate 4 [(''recovery score %'', Num 60)])) = 0
   \<and> confidence (assessInjuryRisk 
        (replicate 4 [(''recovery score %'', Num 60)])) = 0
   \<and> confidence (predictSleepDebt 
        (replicate 4 [(''recovery score %'', Num 60)])) = 0
   \<and> confidence (predictPerformanceReadiness 
        (replicate 4 [(''recovery score %'', Num 60)])) = 0
   \<and> generatePredictions 
        (replicate 14 [(''sleep need (min)'', Num 480), (''asleep duration (min)'', Num 450)]) \<noteq> []
   \<and> list_all (\<lambda>p. confidence p > 0.6) (generatePredictions 
        (replicate 14 [(''sleep need (min)'', Num 480), (''asleep duration (min)'', Num 450)]))"
proof -
  let ?A = "replicate 4 [(''recovery score %'', Num 60)]"
  let ?B = "replicate 14 [(''sleep need (min)'', Num 480), (''asleep duration (min)'', Num 450)]"
  have h1: "length (getMetricData ?A ''recovery score %'') < 5"
    by (simp add: getMetricData_replicate field_def)
  then have h2: "length (getMetricData ?A ''recovery score %'') < 7"
    by simp
  have h3: "length (getMetricData ?A ''sleep need (min)'') < 5"
    by (simp add: getMetricData_replicate field_def)
  note t = insufficient_data_placeholders [of ?A]
  from t h2 have p1: "confidence (predictRecoveryScore ?A) = 0"
    by simp
  from t h2 have p2: "confidence (assessInjuryRisk ?A) = 0"
    by simp
  from t h3 have p3: "confidence (predictSleepDebt ?A) = 0"
    by simp
  from t h1 have p4: "confidence (predictPerformanceReadiness ?A) = 0"
    by simp
  from insufficient_data_placeholders [of ?B]
  have "list_all (\<lambda>p. confidence p > 0.6) (generatePredictions ?B)"
    by (simp add: list_all_iff)
  with h1 h3 p1 p2 p3 p4 predictions_two_weeks show ?thesis
    by blast
qed

lemma weeklyDeficits_nonempty:
  "5 \<le> length need \<Longrightarrow> 5 \<le> length dur \<Longrightarrow> weeklyDeficits need dur \<noteq> []"
  by (auto simp add: weeklyDeficits_def Let_def)

lemma sum_weeklyDeficits:
  "sum_list (weeklyDeficits need dur) =
     (\<Sum>i<min 7 (min (length need) (length dur)). need ! i - dur ! i)"
  by (simp add: weeklyDeficits_def Let_def interv_sum_list_conv_sum_set_nat atLeast0LessThan)

lemma zero_debt_on_series:
  assumes "5 \<le> length need" and "5 \<le> length dur"
  shows "currentSleepDebt (0 # rest) (weeklyDeficits need dur) = sum_list (weeklyDeficits need dur)"
    and "sleepDebtForecast need dur (0 # rest) = sleepDebtForecast need dur []"
proof -
  have ne: "weeklyDeficits need dur \<noteq> []"
    using assms by (rule weeklyDeficits_nonempty)
  then show a: "currentSleepDebt (0 # rest) (weeklyDeficits need dur) = sum_list (weeklyDeficits need dur)"
    by (simp add: currentSleepDebt_def)
  from ne have b: "currentSleepDebt [] (weeklyDeficits need dur) = sum_list (weeklyDeficits need dur)"
    by (simp add: currentSleepDebt_def)
  show "sleepDebtForecast need dur (0 # rest) = sleepDebtForecast need dur []"
    by (simp add: sleepDebtForecast_def Let_def a b)
qed

lemma take3_deficits:
  assumes "5 \<le> length need" and "5 \<le> length dur"
  shows "sum_list (take 3 (weeklyDeficits need dur)) = (\<Sum>i<3. need ! i - dur ! i)"
proof -
  have "3 \<le> min 7 (min (length need) (length dur))"
    using assms by simp
  then have "take 3 [0..<min 7 (min (length need) (length dur))] = [0..<3]"
    by (simp add: take_upt)
  then show ?thesis
    by (simp add: weeklyDeficits_def Let_def take_map interv_sum_list_conv_sum_set_nat
        atLeast0LessThan del: upt_Suc)
qed

text \<open>
  C10. When the forecast has its 5 points of sleep need and of sleep duration and the most
  recent value of the sleep-debt column is exactly 0, the current debt is not 0 but the
  sum of the deficits (need minus duration) of the first \<open>min(7, lengths)\<close> days; the
  forecast is the one the same columns give with no sleep-debt value at all, and it is
  computed from that sum: the prediction is the rounded sum plus 7 times the mean deficit
  of the three most recent days, and the reasoning and the recommendations are those of
  that sum.
\<close>

theorem zero_sleep_debt_recomputed:
  assumes "5 \<le> length (getMetricData rows ''sleep need (min)'')"
    and "5 \<le> length (getMetricData rows ''asleep duration (min)'')"
    and "getMetricData rows ''sleep debt (min)'' = 0 # rest"
  shows "currentSleepDebt (getMetricData rows ''sleep debt (min)'')
           (weeklyDeficits (getMetricData rows ''sleep need (min)'')
              (getMetricData rows ''asleep duration (min)''))
         = (\<Sum>i<min 7 (min (length (getMetricData rows ''sleep need (min)''))
                          (length (getMetricData rows ''asleep duration (min)''))).
              getMetricData rows ''sleep need (min)'' ! i
              - getMetricData rows ''asleep duration (min)'' ! i)
       \<and> predictSleepDebt rows
         = sleepDebtForecast (getMetricData rows ''sleep need (min)'')
             (getMetricData rows ''asleep duration (min)'') []
       \<and> predictSleepDebt rows =
           (let need = getMetricData rows ''sleep need (min)'';
                dur = getMetricData rows ''asleep duration (min)'';
                debt = (\<Sum>i<min 7 (min (length need) (length dur)). need ! i - dur ! i);
                recent = (\<Sum>i<3. need ! i - dur ! i) / 3
            in \<lparr>ptype = SleepDebtForecast, prediction = mathRound (debt + recent * 7),
                confidence = calculateConfidence [need, dur],
                timeframe = ''current & 1 week projection'',
                reasoning = ''Current debt: '' @ signedHours (debt / 60)
                  @ ''h. Recent avg deficit: '' @ toFixed1 (recent / 60)
                  @ ''h/day. Projected: '' @ signedHours ((debt + recent * 7) / 60) @ ''h'',
                precommendations =
                  (if \<bar>debt\<bar> < 30 then SleepBalanced
                   else if debt > 120 then SleepDebtSignificant
                   else if debt > 60 then SleepDebtModerate
                   else if debt < - 60 then SleepSurplus
                   else SleepDebtMinor)\<rparr>)"
proof -
  let ?need = "getMetricData rows ''sleep need (min)''"
  let ?dur = "getMetricData rows ''asleep duration (min)''"
  note z = zero_debt_on_series [OF assms(1, 2), of rest]
  have cur: "currentSleepDebt (0 # rest) (weeklyDeficits ?need ?dur)
      = (\<Sum>i<min 7 (min (length ?need) (length ?dur)). ?need ! i - ?dur ! i)"
    using z(1) by (simp add: sum_weeklyDeficits)
  have rec: "sum_list (take 3 (weeklyDeficits ?need ?dur)) = (\<Sum>i<3. ?need ! i - ?dur ! i)"
    using assms(1, 2) by (rule take3_deficits)
  have a: "predictSleepDebt rows = sleepDebtForecast ?need ?dur []"
    using z(2) assms(3) by (simp add: predictSleepDebt_def)
  have b: "predictSleepDebt rows = sleepDebtForecast ?need ?dur (0 # rest)"
    using assms(3) by (simp add: predictSleepDebt_def)
  have c: "\<not> (length ?need < 5 \<or> length ?dur < 5)"
    using assms(1, 2) by simp
  show ?thesis
    unfolding assms(3)
    apply (intro conjI)
      apply (rule cur)
     apply (rule a)
    unfolding b sleepDebtForecast_def
    apply (simp only: c if_False Let_def cur rec)
    done
qed


lemma weeklyDeficits_five_days:
  "weeklyDeficits (replicate 5 a) (replicate 5 b) = [a - b, a - b, a - b, a - b, a - b]"
  by (simp add: weeklyDeficits_def upt_rec)

lemma columns_five_days:
  "getMetricData 
        (replicate 5 [(''sleep need (min)'', Num 480), (''asleep duration (min)'', Num 420), (''sleep debt (min)'', Num 0)]) ''sleep need (min)'' = replicate 5 480"
  "getMetricData 
        (replicate 5 [(''sleep need (min)'', Num 480), (''asleep duration (min)'', Num 420), (''sleep debt (min)'', Num 0)]) ''asleep duration (min)'' = replicate 5 420"
  "getMetricData 
        (replicate 5 [(''sleep need (min)'', Num 480), (''asleep duration (min)'', Num 420), (''sleep debt (min)'', Num 0)]) ''sleep debt (min)'' = replicate 5 0"
  by (simp_all add: getMetricData_replicate field_def)

lemma sums_five_days:
  "(\<Sum>i<min 7 (min (length (replicate 5 (480::real))) (length (replicate 5 (420::real)))).
      replicate 5 (480::real) ! i - replicate 5 420 ! i) = 300"
  "(\<Sum>i<3. replicate 5 (480::real) ! i - replicate 5 420 ! i) = 180"
  by (simp_all add: eval_nat_numeral)

text \<open>
  C10 on five days of sleep need 480, sleep 420 and a recorded sleep debt of 0: the
  current debt is 5 times 60 minutes, and the prediction is 300 + 7 * 60 = 720.
\<close>

theorem zero_sleep_debt_recomputed_witness:
  "5 \<le> length (getMetricData 
        (replicate 5 [(''sleep need (min)'', Num 480), (''asleep duration (min)'', Num 420),
         (''sleep debt (min)'', Num 0)]) ''sleep need (min)'')
   \<and> 5 \<le> length (getMetricData 
        (replicate 5 [(''sleep need (min)'', Num 480), (''asleep duration (min)'', Num 420),
         (''sleep debt (min)'', Num 0)]) ''asleep duration (min)'')
   \<and> getMetricData 
        (replicate 5 [(''sleep need (min)'', Num 480), (''asleep duration (min)'', Num 420),
         (''sleep debt (min)'', Num 0)]) ''sleep debt (min)'' = [0, 0, 0, 0, 0]
   \<and> currentSleepDebt (getMetricData 
        (replicate 5 [(''sleep need (min)'', Num 480), (''asleep duration (min)'', Num 420),
         (''sleep debt (min)'', Num 0)]) ''sleep debt (min)'')
        (weeklyDeficits (getMetricData 
        (replicate 5 [(''sleep need (min)'', Num 480), (''asleep duration (min)'', Num 420),
         (''sleep debt (min)'', Num 0)]) ''sleep need (min)'')
           (getMetricData 
        (replicate 5 [(''sleep need (min)'', Num 480), (''asleep duration (min)'', Num 420),
         (''sleep debt (min)'', Num 0)]) ''asleep duration (min)'')) = 300
   \<and> prediction (predictSleepDebt 
        (replicate 5 [(''sleep need (min)'', Num 480), (''asleep duration (min)'', Num 420),
         (''sleep debt (min)'', Num 0)])) = 720
   \<and> precommendations (predictSleepDebt 
        (replicate 5 [(''sleep need (min)'', Num 480), (''asleep duration (min)'', Num 420),
         (''sleep debt (min)'', Num 0)])) = SleepDebtSignificant"
proof -
  let ?C = "replicate 5 [(''sleep need (min)'', Num 480), (''asleep duration (min)'', Num 420),
    (''sleep debt (min)'', Num (0::real))]"
  have h1: "5 \<le> length (getMetricData ?C ''sleep need (min)'')"
    and h2: "5 \<le> length (getMetricData ?C ''asleep duration (min)'')"
    by (simp_all add: columns_five_days)
  have h3: "getMetricData ?C ''sleep debt (min)'' = 0 # [0, 0, 0, 0]"
    unfolding columns_five_days by (simp add: eval_nat_numeral)
  note t = zero_sleep_debt_recomputed [OF h1 h2 h3]
  from t have cur: "currentSleepDebt (getMetricData ?C ''sleep debt (min)'')
        (weeklyDeficits (getMetricData ?C ''sleep need (min)'')
           (getMetricData ?C ''asleep duration (min)'')) = 300"
    unfolding columns_five_days sums_five_days by (rule conjunct1)
  from t have out: "predictSleepDebt ?C =
      \<lparr>ptype = SleepDebtForecast, prediction = mathRound (300 + 180 / 3 * 7),
       confidence = calculateConfidence [replicate 5 480, replicate 5 420],
       timeframe = ''current & 1 week projection'',
       reasoning = ''Current debt: '' @ signedHours (300 / 60)
         @ ''h. Recent avg deficit: '' @ toFixed1 (180 / 3 / 60)
         @ ''h/day. Projected: '' @ signedHours ((300 + 180 / 3 * 7) / 60) @ ''h'',
       precommendations =
         (if \<bar>300 :: real\<bar> < 30 then SleepBalanced
          else if (300 :: real) > 120 then SleepDebtSignificant
          else if (300 :: real) > 60 then SleepDebtModerate
          else if (300 :: real) < - 60 then SleepSurplus
          else SleepDebtMinor)\<rparr>"
    unfolding columns_five_days Let_def sums_five_days by (elim conjE)
  have p: "prediction (predictSleepDebt ?C) = 720"
    unfolding out by (simp add: mathRound_def)
  have r: "precommendations (predictSleepDebt ?C) = SleepDebtSignificant"
    unfolding out by simp
  from h1 h2 h3 cur p r show ?thesis
    by simp
qed

subsection \<open>Retrieval\<close>

lemma wordScore_nonneg: "0 \<le> wordScore c m w"
  by (simp add: wordScore_def)

lemma foldl_wordScore_nonneg:
  "0 \<le> acc \<Longrightarrow> 0 \<le> foldl (\<lambda>score w. score + wordScore c m w) acc ws"
  by (induction ws arbitrary: acc) (simp_all add: wordScore_nonneg)

lemma keywordScore_nonneg: "0 \<le> keywordScore ws dp"
  by (simp add: keywordScore_def foldl_wordScore_nonneg)

lemma recentBoost_nonneg: "0 \<le> recentBoost dp"
  by (simp add: recentBoost_def split: option.split)

lemma temporalBoost_nonneg: "0 \<le> temporalBoost t dp"
  by (simp add: temporalBoost_def split: option.split)

lemma sleep_debt_query_lower: "toLowerCase ''sleep debt'' = ''sleep debt''"
  by (simp add: toLowerCase_def toLowerChar_def)

lemma tracking_score:
  assumes "source dp = ''sleep_debt_tracking''"
  shows "50 \<le> scorePoint ''sleep debt'' dp"
proof -
  have "sleepDebtBoost ''sleep debt'' dp = 50"
    using assms by (simp add: sleepDebtBoost_def)
  then show ?thesis
    using keywordScore_nonneg [of "expandQuery ''sleep debt''" dp] recentBoost_nonneg [of dp]
      temporalBoost_nonneg [of "isTemporalQuery ''sleep debt''" dp]
    by (simp add: scorePoint_def sleep_debt_query_lower Let_def)
qed

lemma ranked_scores:
  "item \<in> set (rankedData kb q) \<Longrightarrow> snd item = scorePoint q (fst item)"
  by (auto simp add: rankedData_def)

lemma ranked_descending:
  assumes "i \<le> j" and "j < length (rankedData kb q)"
  shows "snd (rankedData kb q ! j) \<le> snd (rankedData kb q ! i)"
proof -
  have "sorted (map (\<lambda>item. - snd item) (rankedData kb q))"
    unfolding rankedData_def by (rule sorted_sort_key)
  then have "map (\<lambda>item. - snd item) (rankedData kb q) ! i
      \<le> map (\<lambda>item. - snd item) (rankedData kb q) ! j"
    using assms by (simp add: sorted_iff_nth_mono del: nth_map)
  with assms show ?thesis
    by simp
qed

lemma retrieved_nth:
  assumes "i < length (retrieveRelevantData kb q n)"
  shows "i < length (rankedData kb q)"
    and "retrieveRelevantData kb q n ! i = fst (rankedData kb q ! i)"
  using assms by (simp_all add: retrieveRelevantData_def)

lemma tracking_ranked:
  assumes "d \<in> set kb" and "source d = ''sleep_debt_tracking''"
  shows "(d, scorePoint ''sleep debt'' d) \<in> set (rankedData kb ''sleep debt'')"
  using assms tracking_score [of d] by (auto simp add: rankedData_def)

text \<open>
  C7, amended. For the query \<open>sleep debt\<close>: a data point with source
  \<open>sleep_debt_tracking\<close> scores at least 50; whenever the result holds, at some position, a
  data point of another source than the two sleep-debt sources whose score is below 50,
  every tracking point of the knowledge base is in the result at an earlier position; and
  every tracking point of the result stands strictly before every such point of the
  result.
\<close>

theorem tracking_ranked_above_low_scores:
  "(source d = ''sleep_debt_tracking'' \<longrightarrow> 50 \<le> scorePoint ''sleep debt'' d)
   \<and> (d \<in> set kb \<and> source d = ''sleep_debt_tracking''
        \<and> j < length (retrieveRelevantData kb ''sleep debt'' n)
        \<and> source (retrieveRelevantData kb ''sleep debt'' n ! j) \<noteq> ''sleep_debt_tracking''
        \<and> source (retrieveRelevantData kb ''sleep debt'' n ! j) \<noteq> ''sleep_debt_analysis''
        \<and> scorePoint ''sleep debt'' (retrieveRelevantData kb ''sleep debt'' n ! j) < 50
      \<longrightarrow> (\<exists>i<j. retrieveRelevantData kb ''sleep debt'' n ! i = d))
   \<and> (i < length (retrieveRelevantData kb ''sleep debt'' n)
        \<and> j < length (retrieveRelevantData kb ''sleep debt'' n)
        \<and> source (retrieveRelevantData kb ''sleep debt'' n ! i) = ''sleep_debt_tracking''
        \<and> source (retrieveRelevantData kb ''sleep debt'' n ! j) \<noteq> ''sleep_debt_tracking''
        \<and> source (retrieveRelevantData kb ''sleep debt'' n ! j) \<noteq> ''sleep_debt_analysis''
        \<and> scorePoint ''sleep debt'' (retrieveRelevantData kb ''sleep debt'' n ! j) < 50
      \<longrightarrow> i < j)"
proof (intro conjI impI)
  assume "source d = ''sleep_debt_tracking''"
  then show "50 \<le> scorePoint ''sleep debt'' d"
    by (rule tracking_score)
next
  let ?R = "rankedData kb ''sleep debt''"
  let ?ret = "retrieveRelevantData kb ''sleep debt'' n"
  assume a: "d \<in> set kb \<and> source d = ''sleep_debt_tracking''
        \<and> j < length ?ret
        \<and> source (?ret ! j) \<noteq> ''sleep_debt_tracking''
        \<and> source (?ret ! j) \<noteq> ''sleep_debt_analysis''
        \<and> scorePoint ''sleep debt'' (?ret ! j) < 50"
  then have lj: "j < length ?ret" and low: "scorePoint ''sleep debt'' (?ret ! j) < 50"
    by simp_all
  from a have "(d, scorePoint ''sleep debt'' d) \<in> set ?R"
    by (simp add: tracking_ranked)
  then obtain p where p: "p < length ?R" and at: "?R ! p = (d, scorePoint ''sleep debt'' d)"
    by (auto simp add: in_set_conv_nth)
  have ljR: "j < length ?R"
    using lj by (rule retrieved_nth(1))
  have sj: "snd (?R ! j) = scorePoint ''sleep debt'' (?ret ! j)"
    using ranked_scores [OF nth_mem [OF ljR]] retrieved_nth(2) [OF lj] by simp
  have high: "50 \<le> scorePoint ''sleep debt'' d"
    using a by (simp add: tracking_score)
  have "p < j"
  proof (rule ccontr)
    assume "\<not> p < j"
    then have "j \<le> p"
      by simp
    then have "snd (?R ! p) \<le> snd (?R ! j)"
      using p by (rule ranked_descending)
    with at sj low high show False
      by simp
  qed
  moreover from \<open>p < j\<close> lj have "p < length ?ret"
    by simp
  then have "?ret ! p = fst (?R ! p)"
    by (rule retrieved_nth(2))
  with at have "?ret ! p = d"
    by simp
  ultimately show "\<exists>i<j. ?ret ! i = d"
    by blast
next
  let ?R = "rankedData kb ''sleep debt''"
  let ?ret = "retrieveRelevantData kb ''sleep debt'' n"
  assume a: "i < length ?ret \<and> j < length ?ret
        \<and> source (?ret ! i) = ''sleep_debt_tracking''
        \<and> source (?ret ! j) \<noteq> ''sleep_debt_tracking''
        \<and> source (?ret ! j) \<noteq> ''sleep_debt_analysis''
        \<and> scorePoint ''sleep debt'' (?ret ! j) < 50"
  then have li': "i < length ?ret" and lj': "j < length ?ret"
    by simp_all
  show "i < j"
  proof (rule ccontr)
    assume "\<not> i < j"
    then have "j \<le> i"
      by simp
    have li: "i < length ?R" and lj: "j < length ?R"
      using li' lj' by (simp_all add: retrieved_nth(1))
    have "snd (?R ! i) \<le> snd (?R ! j)"
      using \<open>j \<le> i\<close> li by (rule ranked_descending)
    moreover have "snd (?R ! i) = scorePoint ''sleep debt'' (fst (?R ! i))"
      by (rule ranked_scores [OF nth_mem [OF li]])
    moreover have "snd (?R ! j) = scorePoint ''sleep debt'' (fst (?R ! j))"
      by (rule ranked_scores [OF nth_mem [OF lj]])
    moreover have "50 \<le> scorePoint ''sleep debt'' (fst (?R ! i))"
      using a by (simp add: retrieved_nth(2) [OF li'] tracking_score)
    moreover have "scorePoint ''sleep debt'' (fst (?R ! j)) < 50"
      using a by (simp add: retrieved_nth(2) [OF lj'])
    ultimately show False
      by simp
  qed
qed


lemma crowded_base:
  "buildKnowledgeBase (\<lambda>x. [])
     [[(''light sleep deep rem awake bed duration efficiency performance'', Str ''x''),
       (''sleep debt (min)'', Num 45)]] [] =
   [\<lparr>content = ''most recently, your light sleep deep rem awake bed duration efficiency performance was x'',
      date = Str ''day 1'',
      metric = ''light sleep deep rem awake bed duration efficiency performance'',
      dvalue = ''x'', source = ''csv_data'', recency = Some 0\<rparr>,
    \<lparr>content = ''most recently, your sleep debt (min) was 0h 45m'', date = Str ''day 1'',
      metric = ''sleep debt (min)'', dvalue = ''0h 45m'', source = ''csv_data'',
      recency = Some 0\<rparr>,
    \<lparr>content = ''Sleep debt most recent night: +0.8 hours (moderate debt)'', date = Undef,
      metric = ''Sleep Debt Analysis'', dvalue = ''45'', source = ''sleep_debt_tracking'',
      recency = Some 0\<rparr>,
    \<lparr>content = ''Sleep debt 7-day trend: 0.8 hours total, 0.8 hours average daily (accumulating debt)'',
      date = Undef, metric = ''Sleep Debt Trend'', dvalue = ''45'',
      source = ''sleep_debt_analysis'', recency = Some 0\<rparr>]"
  by code_simp

lemma crowded_scores:
  "scorePoint ''sleep debt''
     \<lparr>content = ''most recently, your light sleep deep rem awake bed duration efficiency performance was x'',
      date = Str ''day 1'',
      metric = ''light sleep deep rem awake bed duration efficiency performance'',
      dvalue = ''x'', source = ''csv_data'', recency = Some 0\<rparr> = 75"
  "scorePoint ''sleep debt''
     \<lparr>content = ''most recently, your sleep debt (min) was 0h 45m'', date = Str ''day 1'',
      metric = ''sleep debt (min)'', dvalue = ''0h 45m'', source = ''csv_data'',
      recency = Some 0\<rparr> = 19"
  "scorePoint ''sleep debt''
     \<lparr>content = ''Sleep debt most recent night: +0.8 hours (moderate debt)'', date = Undef,
      metric = ''Sleep Debt Analysis'', dvalue = ''45'', source = ''sleep_debt_tracking'',
      recency = Some 0\<rparr> = 69"
  "scorePoint ''sleep debt''
     \<lparr>content = ''Sleep debt 7-day trend: 0.8 hours total, 0.8 hours average daily (accumulating debt)'',
      date = Undef, metric = ''Sleep Debt Trend'', dvalue = ''45'',
      source = ''sleep_debt_analysis'', recency = Some 0\<rparr> = 64"
  by code_simp+

lemma crowded_retrieval:
  "retrieveRelevantData
     (buildKnowledgeBase (\<lambda>x. [])
        [[(''light sleep deep rem awake bed duration efficiency performance'', Str ''x''),
          (''sleep debt (min)'', Num 45)]] []) ''sleep debt'' 10 =
   [\<lparr>content = ''most recently, your light sleep deep rem awake bed duration efficiency performance was x'',
      date = Str ''day 1'',
      metric = ''light sleep deep rem awake bed duration efficiency performance'',
      dvalue = ''x'', source = ''csv_data'', recency = Some 0\<rparr>,
    \<lparr>content = ''Sleep debt most recent night: +0.8 hours (moderate debt)'', date = Undef,
      metric = ''Sleep Debt Analysis'', dvalue = ''45'', source = ''sleep_debt_tracking'',
      recency = Some 0\<rparr>,
    \<lparr>content = ''Sleep debt 7-day trend: 0.8 hours total, 0.8 hours average daily (accumulating debt)'',
      date = Undef, metric = ''Sleep Debt Trend'', dvalue = ''45'',
      source = ''sleep_debt_analysis'', recency = Some 0\<rparr>,
    \<lparr>content = ''most recently, your sleep debt (min) was 0h 45m'', date = Str ''day 1'',
      metric = ''sleep debt (min)'', dvalue = ''0h 45m'', source = ''csv_data'',
      recency = Some 0\<rparr>]"
  unfolding crowded_base
  by (simp add: retrieveRelevantData_def rankedData_def crowded_scores)

text \<open>
  C7, as stated, fails: the boosts are added to the keyword score, and a field whose name
  holds nine of the eighteen expanded terms scores 75 from its keywords and recency alone,
  above the tracking point of the same build (16 + 50 + 3 = 69).
\<close>

theorem crowded_field_outranks_tracking:
  "map source (retrieveRelevantData
     (buildKnowledgeBase (\<lambda>x. [])
        [[(''light sleep deep rem awake bed duration efficiency performance'', Str ''x''),
          (''sleep debt (min)'', Num 45)]] []) ''sleep debt'' 10)
     = [''csv_data'', ''sleep_debt_tracking'', ''sleep_debt_analysis'', ''csv_data'']
   \<and> map (scorePoint ''sleep debt'') (retrieveRelevantData
     (buildKnowledgeBase (\<lambda>x. [])
        [[(''light sleep deep rem awake bed duration efficiency performance'', Str ''x''),
          (''sleep debt (min)'', Num 45)]] []) ''sleep debt'' 10)
     = [75, 69, 64, 19]"
  unfolding crowded_retrieval by (simp add: crowded_scores)

text \<open>
  The amended C7 in that result: the tracking point of the knowledge base (score 69) is
  at position 1, before the point of the sleep-debt field itself (position 3, score 19).
\<close>

theorem tracking_ranked_above_low_scores_witness:
  "\<lparr>content = ''Sleep debt most recent night: +0.8 hours (moderate debt)'', date = Undef,
      metric = ''Sleep Debt Analysis'', dvalue = ''45'', source = ''sleep_debt_tracking'',
      recency = Some 0\<rparr> \<in> set (buildKnowledgeBase (\<lambda>x. [])
        [[(''light sleep deep rem awake bed duration efficiency performance'', Str ''x''),
          (''sleep debt (min)'', Num 45)]] [])
   \<and> 50 \<le> scorePoint ''sleep debt'' \<lparr>content = ''Sleep debt most recent night: +0.8 hours (moderate debt)'', date = Undef,
      metric = ''Sleep Debt Analysis'', dvalue = ''45'', source = ''sleep_debt_tracking'',
      recency = Some 0\<rparr>
   \<and> 1 < length (retrieveRelevantData
     (buildKnowledgeBase (\<lambda>x. [])
        [[(''light sleep deep rem awake bed duration efficiency performance'', Str ''x''),
          (''sleep debt (min)'', Num 45)]] []) ''sleep debt'' 10)
   \<and> 3 < length (retrieveRelevantData
     (buildKnowledgeBase (\<lambda>x. [])
        [[(''light sleep deep rem awake bed duration efficiency performance'', Str ''x''),
          (''sleep debt (min)'', Num 45)]] []) ''sleep debt'' 10)
   \<and> source ((retrieveRelevantData
     (buildKnowledgeBase (\<lambda>x. [])
        [[(''light sleep deep rem awake bed duration efficiency performance'', Str ''x''),
          (''sleep debt (min)'', Num 45)]] []) ''sleep debt'' 10) ! 1) = ''sleep_debt_tracking''
   \<and> source ((retrieveRelevantData
     (buildKnowledgeBase (\<lambda>x. [])
        [[(''light sleep deep rem awake bed duration efficiency performance'', Str ''x''),
          (''sleep debt (min)'', Num 45)]] []) ''sleep debt'' 10) ! 3) = ''csv_data''
   \<and> scorePoint ''sleep debt'' ((retrieveRelevantData
     (buildKnowledgeBase (\<lambda>x. [])
        [[(''light sleep deep rem awake bed duration efficiency performance'', Str ''x''),
          (''sleep debt (min)'', Num 45)]] []) ''sleep debt'' 10) ! 3) = 19
   \<and> (\<exists>i<3. (retrieveRelevantData
     (buildKnowledgeBase (\<lambda>x. [])
        [[(''light sleep deep rem awake bed duration efficiency performance'', Str ''x''),
          (''sleep debt (min)'', Num 45)]] []) ''sleep debt'' 10) ! i = \<lparr>content = ''Sleep debt most recent night: +0.8 hours (moderate debt)'', date = Undef,
      metric = ''Sleep Debt Analysis'', dvalue = ''45'', source = ''sleep_debt_tracking'',
      recency = Some 0\<rparr>)
   \<and> (1::nat) < 3"
proof -
  let ?kb = "(buildKnowledgeBase (\<lambda>x. [])
        [[(''light sleep deep rem awake bed duration efficiency performance'', Str ''x''),
          (''sleep debt (min)'', Num 45)]] [])"
  let ?ret = "retrieveRelevantData ?kb ''sleep debt'' 10"
  let ?d = "\<lparr>content = ''Sleep debt most recent night: +0.8 hours (moderate debt)'', date = Undef,
      metric = ''Sleep Debt Analysis'', dvalue = ''45'', source = ''sleep_debt_tracking'',
      recency = Some 0\<rparr>"
  note t = tracking_ranked_above_low_scores [of ?d ?kb 3 10 1]
  have m: "?d \<in> set ?kb"
    unfolding crowded_base by simp
  have s: "source ?d = ''sleep_debt_tracking''"
    by simp
  have h1: "1 < length ?ret" and h2: "3 < length ?ret"
    unfolding crowded_retrieval by simp_all
  have h3: "source (?ret ! 1) = ''sleep_debt_tracking''"
    unfolding crowded_retrieval by simp
  have h4: "source (?ret ! 3) = ''csv_data''"
    unfolding crowded_retrieval by simp
  have h5: "scorePoint ''sleep debt'' (?ret ! 3) = 19"
    unfolding crowded_retrieval by (simp add: crowded_scores)
  have n1: "source (?ret ! 3) \<noteq> ''sleep_debt_tracking''"
    and n2: "source (?ret ! 3) \<noteq> ''sleep_debt_analysis''"
    unfolding h4 by simp_all
  have low: "scorePoint ''sleep debt'' (?ret ! 3) < 50"
    unfolding h5 by simp
  from t s have c1: "50 \<le> scorePoint ''sleep debt'' ?d"
    by blast
  from t m s h2 n1 n2 low have c2: "\<exists>i<3. ?ret ! i = ?d"
    by blast
  from t h1 h2 h3 n1 n2 low have c3: "(1::nat) < 3"
    by blast
  from m c1 h1 h2 h3 h4 h5 c2 c3 show ?thesis
    by blast
qed

end
